theory Spec2Isabelle
  imports Complex_Main
begin

section \<open>Numbers and values of the runtime\<close>

text \<open>
  The engine computes with JavaScript numbers. Finite numbers are modelled as reals; the
  results of the few operations that can leave the finite numbers (a division whose
  divisor can be zero, the initial cost \<open>Infinity\<close>, a midpoint that involves a missing
  feature) are values of \<open>jsnum\<close>. Rounding is not modelled, and neither is the sign of
  zero: every zero divisor in the program is a length, a count or the literal \<open>0\<close>.
\<close>

datatype jsnum = Fin real | PosInf | NegInf | NaN

text \<open>\<open>x / y\<close> on finite numbers.\<close>

definition js_div :: "real \<Rightarrow> real \<Rightarrow> jsnum" where
  "js_div x y =
     (if y \<noteq> 0 then Fin (x / y)
      else if 0 < x then PosInf else if x < 0 then NegInf else NaN)"

text \<open>\<open>a / y\<close> for a finite \<open>y\<close>, \<open>-a\<close>, \<open>a + y\<close>, \<open>a * y\<close>, \<open>Math.abs(a)\<close>.\<close>

fun js_div_fin :: "jsnum \<Rightarrow> real \<Rightarrow> jsnum" where
  "js_div_fin (Fin x) y = js_div x y"
| "js_div_fin PosInf y = (if 0 \<le> y then PosInf else NegInf)"
| "js_div_fin NegInf y = (if 0 \<le> y then NegInf else PosInf)"
| "js_div_fin NaN y = NaN"

fun js_neg :: "jsnum \<Rightarrow> jsnum" where
  "js_neg (Fin x) = Fin (- x)"
| "js_neg PosInf = NegInf"
| "js_neg NegInf = PosInf"
| "js_neg NaN = NaN"

fun js_add_fin :: "jsnum \<Rightarrow> real \<Rightarrow> jsnum" where
  "js_add_fin (Fin x) y = Fin (x + y)"
| "js_add_fin PosInf y = PosInf"
| "js_add_fin NegInf y = NegInf"
| "js_add_fin NaN y = NaN"

fun js_mul_fin :: "jsnum \<Rightarrow> real \<Rightarrow> jsnum" where
  "js_mul_fin (Fin x) y = Fin (x * y)"
| "js_mul_fin PosInf y = (if 0 < y then PosInf else if y < 0 then NegInf else NaN)"
| "js_mul_fin NegInf y = (if 0 < y then NegInf else if y < 0 then PosInf else NaN)"
| "js_mul_fin NaN y = NaN"

fun js_abs :: "jsnum \<Rightarrow> jsnum" where
  "js_abs (Fin x) = Fin \<bar>x\<bar>"
| "js_abs PosInf = PosInf"
| "js_abs NegInf = PosInf"
| "js_abs NaN = NaN"

text \<open>\<open>Math.pow(2, a)\<close>.\<close>

fun js_pow2 :: "jsnum \<Rightarrow> jsnum" where
  "js_pow2 (Fin x) = Fin (2 powr x)"
| "js_pow2 PosInf = PosInf"
| "js_pow2 NegInf = Fin 0"
| "js_pow2 NaN = NaN"

text \<open>\<open>a > y\<close> and \<open>a < b\<close>: every comparison with \<open>NaN\<close> is false.\<close>

fun js_gt_fin :: "jsnum \<Rightarrow> real \<Rightarrow> bool" where
  "js_gt_fin (Fin x) y = (y < x)"
| "js_gt_fin PosInf y = True"
| "js_gt_fin NegInf y = False"
| "js_gt_fin NaN y = False"

fun js_lt :: "jsnum \<Rightarrow> jsnum \<Rightarrow> bool" where
  "js_lt NaN b = False"
| "js_lt a NaN = False"
| "js_lt (Fin x) (Fin y) = (x < y)"
| "js_lt (Fin x) PosInf = True"
| "js_lt (Fin x) NegInf = False"
| "js_lt PosInf b = False"
| "js_lt NegInf NegInf = False"
| "js_lt NegInf b = True"

text \<open>
  \<open>v <= t\<close> where \<open>v\<close> is an array element (\<open>None\<close> is \<open>undefined\<close>, the element of an
  index out of range) and \<open>t\<close> a number: \<open>undefined\<close> converts to \<open>NaN\<close>, so the comparison
  is false. \<open>v < t\<close> likewise.
\<close>

fun js_le_elem :: "real option \<Rightarrow> jsnum \<Rightarrow> bool" where
  "js_le_elem (Some v) (Fin t) = (v \<le> t)"
| "js_le_elem (Some v) PosInf = True"
| "js_le_elem (Some v) NegInf = False"
| "js_le_elem (Some v) NaN = False"
| "js_le_elem None t = False"

fun js_lt_elem :: "real option \<Rightarrow> jsnum \<Rightarrow> bool" where
  "js_lt_elem (Some v) (Fin t) = (v < t)"
| "js_lt_elem (Some v) PosInf = True"
| "js_lt_elem (Some v) NegInf = False"
| "js_lt_elem (Some v) NaN = False"
| "js_lt_elem None t = False"

text \<open>\<open>xs[i]\<close>: \<open>undefined\<close> out of range.\<close>

definition elem :: "'a list \<Rightarrow> nat \<Rightarrow> 'a option" where
  "elem xs i = (if i < length xs then Some (xs ! i) else None)"

text \<open>
  What a leaf of a decision tree holds at run time. The field is declared a number and
  starts as the number \<open>0\<close>, but \<open>majorityClass\<close> (behind a cast) returns either a property
  key of the count table, which is a string, or a whole entry of \<open>Object.entries\<close>, which is
  the two-element array of a key and its count. \<open>JKey k\<close> is the string of the decimal
  numeral of \<open>k\<close>, \<open>JEntry k c\<close> the array of that string and the number \<open>c\<close>.
\<close>

datatype jsval = JNum real | JKey nat | JEntry nat nat

text \<open>\<open>p === 1\<close> and the like: strict equality with a number holds for that number only.\<close>

fun strict_eq_num :: "jsval \<Rightarrow> real \<Rightarrow> bool" where
  "strict_eq_num (JNum x) y = (x = y)"
| "strict_eq_num (JKey k) y = False"
| "strict_eq_num (JEntry k c) y = False"

text \<open>
  \<open>parseInt(a)\<close>: the argument is converted to a string first, an array to its elements
  joined by commas, and the leading decimal digits are read. On the values that reach it
  here (keys and entries) it gives back the label.
\<close>

fun parseInt :: "jsval \<Rightarrow> nat" where
  "parseInt (JKey k) = k"
| "parseInt (JEntry k c) = k"
| "parseInt (JNum x) = nat \<lfloor>x\<rfloor>"

datatype error = TypeError_reduce_of_empty_array | TypeError_null_dereference

section \<open>Decision tree\<close>

record TrainingData =
  features :: "real list"
  label :: nat

text \<open>
  A \<open>DecisionTree\<close> object: its six fields. A child is \<open>None\<close> while the field is \<open>null\<close>.
\<close>

datatype DecisionTree =
  DecisionTree (threshold: jsnum) (featureIndex: nat)
    (leftChild: "DecisionTree option") (rightChild: "DecisionTree option")
    (prediction: jsval) (isLeaf: bool)

text \<open>The object \<open>new DecisionTree()\<close> creates.\<close>

definition new_DecisionTree :: DecisionTree where
  "new_DecisionTree = DecisionTree (Fin 0) 0 None None (JNum 0) False"

definition isPure :: "TrainingData list \<Rightarrow> bool" where
  "isPure data =
     (case data of [] \<Rightarrow> True | d0 # _ \<Rightarrow> list_all (\<lambda>d. label d = label d0) data)"

text \<open>
  The count table \<open>counts\<close>: an object keyed by label. The labels are natural numbers, so
  the keys are array indices and the object enumerates them in ascending numeric order,
  whatever the order of insertion; the table is an association list kept in that order.
\<close>

fun bump :: "nat \<Rightarrow> (nat \<times> nat) list \<Rightarrow> (nat \<times> nat) list" where
  "bump k [] = [(k, 1)]"
| "bump k ((k', c) # rest) =
     (if k = k' then (k', c + 1) # rest
      else if k < k' then (k, 1) # (k', c) # rest
      else (k', c) # bump k rest)"

definition label_counts :: "TrainingData list \<Rightarrow> (nat \<times> nat) list" where
  "label_counts data = foldl (\<lambda>acc d. bump (label d) acc) [] data"

text \<open>\<open>counts[k1] > counts[k2]\<close>; a missing key reads \<open>undefined\<close> and compares false.\<close>

definition count_gt :: "(nat \<times> nat) list \<Rightarrow> nat \<Rightarrow> nat \<Rightarrow> bool" where
  "count_gt counts k1 k2 =
     (case (map_of counts k1, map_of counts k2) of
        (Some c1, Some c2) \<Rightarrow> c2 < c1
      | _ \<Rightarrow> False)"

text \<open>
  \<open>Object.entries(counts).reduce((a, b) => counts[parseInt(a)] > counts[parseInt(b[0])] ? a : b[0])\<close>.
  There is no initial value: on no entries \<open>reduce\<close> throws, on one entry it returns that
  entry without calling the function, and otherwise the accumulator starts as the first
  entry (the array, not its key).
\<close>

definition majorityClass :: "TrainingData list \<Rightarrow> error + jsval" where
  "majorityClass data =
     (let counts = label_counts data in
      case counts of
        [] \<Rightarrow> Inl TypeError_reduce_of_empty_array
      | (k0, c0) # rest \<Rightarrow>
          Inr (foldl (\<lambda>a b. if count_gt counts (parseInt a) (fst b) then a else JKey (fst b))
                 (JEntry k0 c0) rest))"

definition splitData ::
  "TrainingData list \<Rightarrow> nat \<Rightarrow> jsnum \<Rightarrow> TrainingData list \<times> TrainingData list" where
  "splitData data fi thr =
     (filter (\<lambda>s. js_le_elem (elem (features s) fi) thr) data,
      filter (\<lambda>s. \<not> js_le_elem (elem (features s) fi) thr) data)"

definition giniImpurity :: "TrainingData list \<Rightarrow> real" where
  "giniImpurity data =
     (if length data = 0 then 0
      else foldl (\<lambda>gini c. gini - (real c / real (length data)) * (real c / real (length data)))
             1 (map snd (label_counts data)))"

definition calculateGini :: "TrainingData list \<Rightarrow> nat \<Rightarrow> jsnum \<Rightarrow> jsnum" where
  "calculateGini data fi thr =
     (let left = fst (splitData data fi thr);
          right = snd (splitData data fi thr);
          totalSize = length data;
          leftSize = length left;
          rightSize = length right
      in if leftSize = 0 \<or> rightSize = 0 then PosInf
         else Fin ((real leftSize / real totalSize) * giniImpurity left
                 + (real rightSize / real totalSize) * giniImpurity right))"

text \<open>
  \<open>data.map(d => d.features[featureIndex]).sort((a, b) => a - b)\<close>: \<open>sort\<close> moves every
  \<open>undefined\<close> to the end without consulting the comparison, and orders the numbers
  ascending.
\<close>

definition sorted_values :: "TrainingData list \<Rightarrow> nat \<Rightarrow> real option list" where
  "sorted_values data fi =
     (let vs = map (\<lambda>d. elem (features d) fi) data
      in map Some (sort (map the (filter (\<lambda>v. v \<noteq> None) vs)))
         @ filter (\<lambda>v. v = None) vs)"

text \<open>\<open>(values[i] + values[i + 1]) / 2\<close>, which is \<open>NaN\<close> when either is \<open>undefined\<close>.\<close>

fun midpoint :: "real option \<Rightarrow> real option \<Rightarrow> jsnum" where
  "midpoint (Some a) (Some b) = Fin ((a + b) / 2)"
| "midpoint a b = NaN"

fun thresholds :: "real option list \<Rightarrow> jsnum list" where
  "thresholds (a # b # rest) = midpoint a b # thresholds (b # rest)"
| "thresholds rest = []"

record Split =
  split_featureIndex :: nat
  split_threshold :: jsnum
  split_gini :: jsnum

text \<open>
  The two nested loops of \<open>findBestSplit\<close> visit the candidates in this order; the state of
  the loops is \<open>(bestGini, bestSplit)\<close>.
\<close>

definition candidates :: "TrainingData list \<Rightarrow> (nat \<times> jsnum) list" where
  "candidates data =
     (let numFeatures = (case data of [] \<Rightarrow> 0 | d0 # _ \<Rightarrow> length (features d0))
      in concat (map (\<lambda>fi. map (\<lambda>t. (fi, t)) (thresholds (sorted_values data fi)))
                   [0 ..< numFeatures]))"

definition try_split ::
  "TrainingData list \<Rightarrow> jsnum \<times> Split option \<Rightarrow> nat \<times> jsnum \<Rightarrow> jsnum \<times> Split option" where
  "try_split data best cand =
     (let gini = calculateGini data (fst cand) (snd cand)
      in if js_lt gini (fst best)
         then (gini, Some \<lparr>split_featureIndex = fst cand, split_threshold = snd cand,
                           split_gini = gini\<rparr>)
         else best)"

definition findBestSplit :: "TrainingData list \<Rightarrow> Split option" where
  "findBestSplit data = snd (foldl (try_split data) (PosInf, None) (candidates data))"

lemma findBestSplit_sides:
  assumes "findBestSplit data = Some bs"
  shows "fst (splitData data (split_featureIndex bs) (split_threshold bs)) \<noteq> []
       \<and> snd (splitData data (split_featureIndex bs) (split_threshold bs)) \<noteq> []"
proof -
  have inv: "snd (foldl (try_split data) best cs) = Some bs \<Longrightarrow>
      (snd best = Some bs \<longrightarrow>
         fst (splitData data (split_featureIndex bs) (split_threshold bs)) \<noteq> []
       \<and> snd (splitData data (split_featureIndex bs) (split_threshold bs)) \<noteq> []) \<Longrightarrow>
      fst (splitData data (split_featureIndex bs) (split_threshold bs)) \<noteq> []
       \<and> snd (splitData data (split_featureIndex bs) (split_threshold bs)) \<noteq> []"
    for best cs
  proof (induction cs arbitrary: best)
    case Nil
    then show ?case by simp
  next
    case (Cons c cs)
    have step: "snd (try_split data best c) = Some bs \<longrightarrow>
         fst (splitData data (split_featureIndex bs) (split_threshold bs)) \<noteq> []
       \<and> snd (splitData data (split_featureIndex bs) (split_threshold bs)) \<noteq> []"
    proof (cases "js_lt (calculateGini data (fst c) (snd c)) (fst best)")
      case True
      then have "calculateGini data (fst c) (snd c) \<noteq> PosInf"
        by (cases "fst best") auto
      then have "fst (splitData data (fst c) (snd c)) \<noteq> []
               \<and> snd (splitData data (fst c) (snd c)) \<noteq> []"
        by (auto simp: calculateGini_def Let_def split: if_splits)
      with True show ?thesis
        by (auto simp: try_split_def Let_def)
    next
      case False
      with Cons.prems(2) show ?thesis
        by (simp add: try_split_def Let_def)
    qed
    from Cons.prems(1) have "snd (foldl (try_split data) (try_split data best c) cs) = Some bs"
      by simp
    from Cons.IH [OF this step] show ?case .
  qed
  from assms show ?thesis
    unfolding findBestSplit_def by (rule inv) simp
qed

lemma splitData_lengths:
  "length (fst (splitData data fi thr)) + length (snd (splitData data fi thr)) = length data"
  by (simp add: splitData_def sum_length_filter_compl)

lemma findBestSplit_smaller:
  assumes "findBestSplit data = Some bs"
  shows "length (fst (splitData data (split_featureIndex bs) (split_threshold bs))) < length data"
    and "length (snd (splitData data (split_featureIndex bs) (split_threshold bs))) < length data"
  using findBestSplit_sides [OF assms]
    splitData_lengths [of data "split_featureIndex bs" "split_threshold bs"]
  by (cases "fst (splitData data (split_featureIndex bs) (split_threshold bs))";
      cases "snd (splitData data (split_featureIndex bs) (split_threshold bs))"; simp)+

text \<open>
  \<open>train\<close> on a fresh object: the result is the object after the call, or the exception
  that left it. The depth and the sample minimum are integers, as at every call.
\<close>

function train :: "TrainingData list \<Rightarrow> int \<Rightarrow> int \<Rightarrow> error + DecisionTree" where
  "train data maxDepth minSamples =
     (if maxDepth = 0 \<or> int (length data) < minSamples \<or> isPure data then
        (case majorityClass data of
           Inl e \<Rightarrow> Inl e
         | Inr p \<Rightarrow> Inr (DecisionTree (Fin 0) 0 None None p True))
      else
        (case findBestSplit data of
           None \<Rightarrow>
             (case majorityClass data of
                Inl e \<Rightarrow> Inl e
              | Inr p \<Rightarrow> Inr (DecisionTree (Fin 0) 0 None None p True))
         | Some bestSplit \<Rightarrow>
             (case train (fst (splitData data (split_featureIndex bestSplit)
                                 (split_threshold bestSplit))) (maxDepth - 1) minSamples of
                Inl e \<Rightarrow> Inl e
              | Inr l \<Rightarrow>
                  (case train (snd (splitData data (split_featureIndex bestSplit)
                                      (split_threshold bestSplit))) (maxDepth - 1) minSamples of
                     Inl e \<Rightarrow> Inl e
                   | Inr r \<Rightarrow>
                       Inr (DecisionTree (split_threshold bestSplit)
                              (split_featureIndex bestSplit) (Some l) (Some r) (JNum 0) False)))))"
  by pat_completeness auto
termination
  by (relation "measure (\<lambda>(data, maxDepth, minSamples). length data)")
     (auto simp: findBestSplit_smaller)

declare train.simps [simp del]

fun predict :: "DecisionTree \<Rightarrow> real list \<Rightarrow> error + jsval" where
  "predict (DecisionTree thr fi l r p leaf) x =
     (if leaf then Inr p
      else if js_le_elem (elem x fi) thr then
        (case l of None \<Rightarrow> Inl TypeError_null_dereference | Some t \<Rightarrow> predict t x)
      else
        (case r of None \<Rightarrow> Inl TypeError_null_dereference | Some t \<Rightarrow> predict t x))"

text \<open>Every internal node of the tree has both of its children.\<close>

fun children_present :: "DecisionTree \<Rightarrow> bool" where
  "children_present (DecisionTree thr fi l r p leaf) =
     (leaf \<or>
      (case l of
         None \<Rightarrow> False
       | Some lt \<Rightarrow> (case r of None \<Rightarrow> False | Some rt \<Rightarrow> children_present lt \<and> children_present rt)))"

subsection \<open>Facts about the decision tree\<close>

lemma bump_not_Nil: "bump k acc \<noteq> []"
  by (induction k acc rule: bump.induct) auto

lemma label_counts_snoc: "label_counts (data @ [d]) = bump (label d) (label_counts data)"
  by (simp add: label_counts_def)

lemma label_counts_not_Nil: "data \<noteq> [] \<Longrightarrow> label_counts data \<noteq> []"
  by (cases data rule: rev_cases) (simp_all add: label_counts_snoc bump_not_Nil)

lemma majorityClass_Nil: "majorityClass [] = Inl TypeError_reduce_of_empty_array"
  by (simp add: majorityClass_def label_counts_def)

lemma majorityClass_nonempty: "data \<noteq> [] \<Longrightarrow> \<exists>p. majorityClass data = Inr p"
  using label_counts_not_Nil [of data]
  by (cases "label_counts data") (auto simp: majorityClass_def Let_def)

lemma isPure_Nil: "isPure []"
  by (simp add: isPure_def)

lemma train_Nil: "train [] maxDepth minSamples = Inl TypeError_reduce_of_empty_array"
  by (subst train.simps) (simp add: isPure_Nil majorityClass_Nil)

lemma train_nonempty:
  "data \<noteq> [] \<Longrightarrow> \<exists>t. train data maxDepth minSamples = Inr t \<and> children_present t"
proof (induction data maxDepth minSamples rule: train.induct)
  case (1 data maxDepth minSamples)
  obtain p where p: "majorityClass data = Inr p"
    using majorityClass_nonempty [OF "1.prems"] by blast
  show ?case
  proof (cases "maxDepth = 0 \<or> int (length data) < minSamples \<or> isPure data")
    case True
    then show ?thesis
      by (subst train.simps) (simp add: p)
  next
    case stop: False
    show ?thesis
    proof (cases "findBestSplit data")
      case None
      with stop show ?thesis
        by (subst train.simps) (simp add: p)
    next
      case (Some bs)
      let ?l = "fst (splitData data (split_featureIndex bs) (split_threshold bs))"
      let ?r = "snd (splitData data (split_featureIndex bs) (split_threshold bs))"
      from findBestSplit_sides [OF Some] have ne: "?l \<noteq> []" "?r \<noteq> []"
        by simp_all
      from "1.IH"(1) [OF stop Some ne(1)]
      obtain lt where lt: "train ?l (maxDepth - 1) minSamples = Inr lt" "children_present lt"
        by blast
      from "1.IH"(2) [OF stop Some lt(1) ne(2)]
      obtain rt where rt: "train ?r (maxDepth - 1) minSamples = Inr rt" "children_present rt"
        by blast
      from stop Some lt rt show ?thesis
        by (subst train.simps) simp
    qed
  qed
qed

text \<open>A tree that was never trained is not a leaf and has no children.\<close>

lemma predict_new_DecisionTree: "predict new_DecisionTree x = Inl TypeError_null_dereference"
  by (simp add: new_DecisionTree_def)

lemma predict_children_present: "children_present t \<Longrightarrow> \<exists>v. predict t x = Inr v"
proof (induction t x rule: predict.induct)
  case (1 thr fi l r p leaf x)
  then show ?case
    by (cases leaf; cases l; cases r) auto
qed

lemma foldl_bump_pure:
  "\<forall>d\<in>set data. label d = L \<Longrightarrow>
   foldl (\<lambda>acc d. bump (label d) acc) [(L, c)] data = [(L, c + length data)]"
  by (induction data arbitrary: c) simp_all

lemma label_counts_pure:
  assumes "data \<noteq> []" and "\<forall>d\<in>set data. label d = L"
  shows "label_counts data = [(L, length data)]"
proof (cases data)
  case Nil
  with assms show ?thesis by simp
next
  case (Cons d ds)
  with assms have "\<forall>e\<in>set ds. label e = L" "label d = L" by simp_all
  with Cons foldl_bump_pure [of ds L 1] show ?thesis
    by (simp add: label_counts_def)
qed

lemma majorityClass_pure:
  assumes "data \<noteq> []" and "\<forall>d\<in>set data. label d = L"
  shows "majorityClass data = Inr (JEntry L (length data))"
  by (simp add: majorityClass_def label_counts_pure [OF assms])

lemma isPure_same_label: "\<forall>d\<in>set data. label d = L \<Longrightarrow> isPure data"
  by (cases data) (auto simp: isPure_def list_all_iff)

text \<open>
  Claim C3 (for every non-empty training set whose samples share one label \<open>L\<close>, after
  \<open>train\<close> the tree's \<open>predict\<close> returns \<open>L\<close> for every input vector). The code does not
  return the label: on such a set the count table has the single entry of \<open>L\<close>, \<open>reduce\<close>
  returns that entry itself, and the leaf holds the array of the key string of \<open>L\<close> and the
  number of samples. \<open>predict\<close> returns this array for every input vector, and it is not
  strictly equal to the number \<open>L\<close>, which is the test the forest applies to a vote.
\<close>

theorem C3_pure_set_predicts_entry_not_label:
  assumes "data \<noteq> []" and "\<forall>d\<in>set data. label d = L"
  shows "\<exists>t. train data maxDepth minSamples = Inr t
           \<and> predict t x = Inr (JEntry L (length data))
           \<and> \<not> strict_eq_num (JEntry L (length data)) (real L)"
  using isPure_same_label [OF assms(2)] majorityClass_pure [OF assms]
  by (subst train.simps) simp

theorem C3_pure_set_predicts_entry_not_label_witness:
  "[\<lparr>features = [5], label = 1\<rparr>] \<noteq> []
   \<and> list_all (\<lambda>d. label d = 1) [\<lparr>features = [5], label = 1\<rparr>]
   \<and> (\<exists>t. train [\<lparr>features = [5], label = 1\<rparr>] 10 2 = Inr t
           \<and> predict t [5] = Inr (JEntry 1 1)
           \<and> \<not> strict_eq_num (JEntry 1 1) 1)"
  using C3_pure_set_predicts_entry_not_label [of "[\<lparr>features = [5], label = 1\<rparr>]" 1 10 2 "[5]"]
  by simp

text \<open>
  Claim C10 (for every non-empty sample list and every \<open>maxDepth\<close> and \<open>minSamples\<close>,
  \<open>train\<close> terminates and produces a tree in which every internal node has both children,
  each built from a non-empty subset, because a split that leaves a side empty costs
  \<open>Infinity\<close> and is never chosen; so \<open>predict\<close> on the result terminates and never
  dereferences a missing child, for any input vector; on the empty sample list \<open>train\<close>
  fails, because the majority-class computation reduces an empty collection).
  \<open>train\<close> and \<open>predict\<close> are total functions here, so termination is part of their
  definitions; the theorem gives the results.
\<close>

theorem C10_train_total_children_present:
  "(data \<noteq> [] \<longrightarrow>
      (\<exists>t. train data maxDepth minSamples = Inr t \<and> children_present t
           \<and> (\<exists>v. predict t x = Inr v)))
   \<and> (findBestSplit data = Some bs \<longrightarrow>
        fst (splitData data (split_featureIndex bs) (split_threshold bs)) \<noteq> []
      \<and> snd (splitData data (split_featureIndex bs) (split_threshold bs)) \<noteq> [])
   \<and> train [] maxDepth minSamples = Inl TypeError_reduce_of_empty_array"
  using train_nonempty [of data maxDepth minSamples] predict_children_present [of _ x]
    findBestSplit_sides [of data bs] train_Nil [of maxDepth minSamples]
  by blast

lemma findBestSplit_two_samples:
  "findBestSplit [\<lparr>features = [1], label = 0\<rparr>, \<lparr>features = [3], label = 1\<rparr>]
   = Some \<lparr>split_featureIndex = 0, split_threshold = Fin 2, split_gini = Fin 0\<rparr>"
  by (simp add: findBestSplit_def candidates_def sorted_values_def elem_def try_split_def
      calculateGini_def splitData_def giniImpurity_def label_counts_def Let_def)

theorem C10_train_total_children_present_witness:
  "[\<lparr>features = [1], label = 0\<rparr>, \<lparr>features = [3], label = 1\<rparr>] \<noteq> []
   \<and> (\<exists>t. train [\<lparr>features = [1], label = 0\<rparr>, \<lparr>features = [3], label = 1\<rparr>] 10 2 = Inr t
          \<and> children_present t \<and> (\<exists>v. predict t [2] = Inr v))
   \<and> findBestSplit [\<lparr>features = [1], label = 0\<rparr>, \<lparr>features = [3], label = 1\<rparr>]
       = Some \<lparr>split_featureIndex = 0, split_threshold = Fin 2, split_gini = Fin 0\<rparr>
   \<and> fst (splitData [\<lparr>features = [1], label = 0\<rparr>, \<lparr>features = [3], label = 1\<rparr>] 0 (Fin 2)) \<noteq> []
   \<and> snd (splitData [\<lparr>features = [1], label = 0\<rparr>, \<lparr>features = [3], label = 1\<rparr>] 0 (Fin 2)) \<noteq> []
   \<and> train [] 10 2 = Inl TypeError_reduce_of_empty_array"
  using C10_train_total_children_present
    [of "[\<lparr>features = [1], label = 0\<rparr>, \<lparr>features = [3], label = 1\<rparr>]" 10 2 "[2]"
        "\<lparr>split_featureIndex = 0, split_threshold = Fin 2, split_gini = Fin 0\<rparr>"]
    findBestSplit_two_samples
  by simp

section \<open>Random forest\<close>

text \<open>
  \<open>Math.random()\<close> returns a number of the interval from 0 (included) to 1 (excluded).
  The draws of a computation are a parameter of its model, indexed by the place of the
  draw, so that a statement for every value of the parameter covers every run.
\<close>

typedef rand = "{r :: real. 0 \<le> r \<and> r < 1}"
  by (rule exI [of _ 0]) simp

record RandomForest =
  trees :: "DecisionTree list"
  numTrees :: nat

definition new_RandomForest :: "nat \<Rightarrow> RandomForest" where
  "new_RandomForest n = \<lparr>trees = [], numTrees = n\<rparr>"

text \<open>\<open>bootstrap\<close>: draw \<open>i\<close> picks the element \<open>Math.floor(Math.random() * data.length)\<close>.\<close>

definition bootstrap :: "(nat \<Rightarrow> rand) \<Rightarrow> TrainingData list \<Rightarrow> TrainingData list" where
  "bootstrap rnd data =
     map (\<lambda>i. data ! nat \<lfloor>Rep_rand (rnd i) * real (length data)\<rfloor>) [0 ..< length data]"

text \<open>
  The loop of \<open>RandomForest.train\<close> over the tree indices, with \<open>this.trees\<close> as its state.
  An exception of a tree's training leaves the loop with the trees pushed so far.
\<close>

fun train_trees ::
  "(nat \<Rightarrow> nat \<Rightarrow> rand) \<Rightarrow> TrainingData list \<Rightarrow> nat list \<Rightarrow> DecisionTree list
   \<Rightarrow> error option \<times> DecisionTree list" where
  "train_trees rnd data [] acc = (None, acc)"
| "train_trees rnd data (i # rest) acc =
     (case train (bootstrap (rnd i) data) 10 2 of
        Inl e \<Rightarrow> (Some e, acc)
      | Inr t \<Rightarrow> train_trees rnd data rest (acc @ [t]))"

definition RandomForest_train ::
  "(nat \<Rightarrow> nat \<Rightarrow> rand) \<Rightarrow> RandomForest \<Rightarrow> TrainingData list \<Rightarrow> error option \<times> RandomForest" where
  "RandomForest_train rnd f data =
     (let r = train_trees rnd data [0 ..< numTrees f] [] in (fst r, f\<lparr>trees := snd r\<rparr>))"

text \<open>The first exception of a list of results, or all the values.\<close>

fun collect :: "(error + 'a) list \<Rightarrow> error + 'a list" where
  "collect [] = Inr []"
| "collect (Inl e # rest) = Inl e"
| "collect (Inr v # rest) = (case collect rest of Inl e \<Rightarrow> Inl e | Inr vs \<Rightarrow> Inr (v # vs))"

record RFResult =
  rf_prediction :: nat
  rf_confidence :: jsnum

definition RandomForest_predict :: "RandomForest \<Rightarrow> real list \<Rightarrow> error + RFResult" where
  "RandomForest_predict f x =
     (case collect (map (\<lambda>tree. predict tree x) (trees f)) of
        Inl e \<Rightarrow> Inl e
      | Inr predictions \<Rightarrow>
          (let threatCount = length (filter (\<lambda>p. strict_eq_num p 1) predictions);
               confidence =
                 js_mul_fin (js_abs (js_add_fin (js_div (real threatCount) (real (numTrees f)))
                                        (- 0.5))) 2
           in Inr \<lparr>rf_prediction = (if real (numTrees f) / 2 < real threatCount then 1 else 0),
                   rf_confidence = confidence\<rparr>))"

subsection \<open>Facts about the random forest\<close>

text \<open>A value that is not a number: a key string or an entry array.\<close>

fun not_number :: "jsval \<Rightarrow> bool" where
  "not_number (JNum x) = False"
| "not_number (JKey k) = True"
| "not_number (JEntry k c) = True"

fun leaves_not_numbers :: "DecisionTree \<Rightarrow> bool" where
  "leaves_not_numbers (DecisionTree thr fi l r p leaf) =
     (if leaf then not_number p
      else (case l of None \<Rightarrow> True | Some lt \<Rightarrow> leaves_not_numbers lt)
         \<and> (case r of None \<Rightarrow> True | Some rt \<Rightarrow> leaves_not_numbers rt))"


lemma foldl_not_number:
  "not_number a \<Longrightarrow>
   not_number (foldl (\<lambda>a b. if count_gt counts (parseInt a) (fst b) then a else JKey (fst b)) a rest)"
  by (induction rest arbitrary: a) simp_all

lemma majorityClass_not_number: "majorityClass data = Inr p \<Longrightarrow> not_number p"
  by (auto simp: majorityClass_def Let_def foldl_not_number split: list.splits)

lemma train_leaves_not_numbers:
  "train data maxDepth minSamples = Inr t \<Longrightarrow> leaves_not_numbers t"
proof (induction data maxDepth minSamples arbitrary: t rule: train.induct)
  case (1 data maxDepth minSamples)
  show ?case
  proof (cases "maxDepth = 0 \<or> int (length data) < minSamples \<or> isPure data")
    case True
    with "1.prems" show ?thesis
      by (subst (asm) train.simps) (auto split: sum.splits dest: majorityClass_not_number)
  next
    case stop: False
    show ?thesis
    proof (cases "findBestSplit data")
      case None
      with stop "1.prems" show ?thesis
        by (subst (asm) train.simps) (auto split: sum.splits dest: majorityClass_not_number)
    next
      case (Some bs)
      let ?l = "fst (splitData data (split_featureIndex bs) (split_threshold bs))"
      let ?r = "snd (splitData data (split_featureIndex bs) (split_threshold bs))"
      from stop Some "1.prems"
      obtain lt rt where lt: "train ?l (maxDepth - 1) minSamples = Inr lt"
        and rt: "train ?r (maxDepth - 1) minSamples = Inr rt"
        and t: "t = DecisionTree (split_threshold bs) (split_featureIndex bs) (Some lt) (Some rt)
                      (JNum 0) False"
        by (subst (asm) train.simps) (auto split: sum.splits)
      from "1.IH"(1) [OF stop Some lt] "1.IH"(2) [OF stop Some lt rt] t
      show ?thesis by simp
    qed
  qed
qed



lemma bootstrap_not_Nil: "data \<noteq> [] \<Longrightarrow> bootstrap rnd data \<noteq> []"
  by (simp add: bootstrap_def)

text \<open>A tree that \<open>train\<close> returned for some non-empty sample list.\<close>

definition trained_tree :: "DecisionTree \<Rightarrow> bool" where
  "trained_tree t = (children_present t \<and> leaves_not_numbers t)"

lemma train_trained_tree:
  "data \<noteq> [] \<Longrightarrow> \<exists>t. train data maxDepth minSamples = Inr t \<and> trained_tree t"
  using train_nonempty [of data maxDepth minSamples]
    train_leaves_not_numbers [of data maxDepth minSamples]
  unfolding trained_tree_def by blast

lemma train_trees_nonempty:
  assumes "data \<noteq> []"
  shows "list_all trained_tree acc \<Longrightarrow>
         \<exists>ts. train_trees rnd data idx acc = (None, ts) \<and> length ts = length acc + length idx
              \<and> list_all trained_tree ts"
proof (induction idx arbitrary: acc)
  case Nil
  then show ?case by simp
next
  case (Cons i idx)
  from train_trained_tree [OF bootstrap_not_Nil [OF assms], of "rnd i" 10 2]
  obtain t where t: "train (bootstrap (rnd i) data) 10 2 = Inr t" "trained_tree t"
    by blast
  with Cons.prems have "list_all trained_tree (acc @ [t])"
    by simp
  from Cons.IH [OF this] t(1) show ?case
    by auto
qed

lemma RandomForest_train_nonempty:
  assumes "data \<noteq> []"
  shows "\<exists>f'. RandomForest_train rnd f data = (None, f') \<and> numTrees f' = numTrees f
              \<and> length (trees f') = numTrees f \<and> list_all trained_tree (trees f')"
  using train_trees_nonempty [OF assms, of "[]" rnd "[0 ..< numTrees f]"]
  by (auto simp: RandomForest_train_def Let_def)




lemma collect_length: "collect rs = Inr vs \<Longrightarrow> length vs = length rs"
proof (induction rs arbitrary: vs rule: collect.induct)
  case 1
  then show ?case by simp
next
  case (2 e rest)
  then show ?case by simp
next
  case (3 v rest)
  then show ?case by (auto split: sum.splits)
qed

lemma confidence_of_fraction:
  fixes q :: real
  assumes "0 \<le> q" and "q \<le> 1"
  shows "0 \<le> \<bar>q - 0.5\<bar> * 2" and "\<bar>q - 0.5\<bar> * 2 \<le> 1"
    and "(\<bar>q - 0.5\<bar> * 2 = 1) = (q = 0 \<or> q = 1)"
  using assms by (auto simp: abs_if)

text \<open>
  The arithmetic of \<open>RandomForest.predict\<close> on the votes it counts, for a forest that holds
  as many trees as \<open>numTrees\<close> says, and at least one.
\<close>

lemma RandomForest_predict_arithmetic:
  assumes "collect (map (\<lambda>tree. predict tree x) (trees f)) = Inr ps"
    and "length (trees f) = numTrees f" and "0 < numTrees f"
  shows "RandomForest_predict f x
         = Inr \<lparr>rf_prediction =
                   (if real (numTrees f) / 2 < real (length (filter (\<lambda>p. strict_eq_num p 1) ps))
                    then 1 else 0),
                 rf_confidence =
                   Fin (\<bar>real (length (filter (\<lambda>p. strict_eq_num p 1) ps)) / real (numTrees f)
                         - 0.5\<bar> * 2)\<rparr>"
    and "0 \<le> \<bar>real (length (filter (\<lambda>p. strict_eq_num p 1) ps)) / real (numTrees f) - 0.5\<bar> * 2"
    and "\<bar>real (length (filter (\<lambda>p. strict_eq_num p 1) ps)) / real (numTrees f) - 0.5\<bar> * 2 \<le> 1"
    and "(\<bar>real (length (filter (\<lambda>p. strict_eq_num p 1) ps)) / real (numTrees f) - 0.5\<bar> * 2 = 1)
         = (length (filter (\<lambda>p. strict_eq_num p 1) ps) = 0
            \<or> length (filter (\<lambda>p. strict_eq_num p 1) ps) = numTrees f)"
proof -
  let ?tc = "length (filter (\<lambda>p. strict_eq_num p 1) ps)"
  let ?n = "numTrees f"
  from collect_length [OF assms(1)] assms(2) have "length ps = ?n"
    by simp
  with length_filter_le [of "\<lambda>p. strict_eq_num p 1" ps] have tc: "?tc \<le> ?n"
    by simp
  from assms(1,3) show "RandomForest_predict f x
         = Inr \<lparr>rf_prediction = (if real ?n / 2 < real ?tc then 1 else 0),
                 rf_confidence = Fin (\<bar>real ?tc / real ?n - 0.5\<bar> * 2)\<rparr>"
    by (simp add: RandomForest_predict_def Let_def js_div_def)
  from assms(3) tc have q: "0 \<le> real ?tc / real ?n" "real ?tc / real ?n \<le> 1"
    by simp_all
  from confidence_of_fraction(1) [OF q]
  show "0 \<le> \<bar>real ?tc / real ?n - 0.5\<bar> * 2" .
  from confidence_of_fraction(2) [OF q]
  show "\<bar>real ?tc / real ?n - 0.5\<bar> * 2 \<le> 1" .
  have "(real ?tc / real ?n = 0) = (?tc = 0)" "(real ?tc / real ?n = 1) = (?tc = ?n)"
    using assms(3) by auto
  with confidence_of_fraction(3) [OF q] assms(3)
  show "(\<bar>real ?tc / real ?n - 0.5\<bar> * 2 = 1) = (?tc = 0 \<or> ?tc = ?n)"
    by auto
qed








section \<open>Isolation forest\<close>

text \<open>An \<open>IsolationTree\<close> object: its six fields (\<open>tree_size\<close> is the field \<open>size\<close>).\<close>

datatype IsolationTree =
  IsolationTree (splitFeature: nat) (splitValue: jsnum)
    (left: "IsolationTree option") (right: "IsolationTree option")
    (tree_size: nat) (isExternal: bool)

definition averagePathLength :: "nat \<Rightarrow> real" where
  "averagePathLength n =
     (if n \<le> 1 then 0
      else 2 * (ln (real n - 1) + 0.5772156649) - (2 * (real n - 1) / real n))"

text \<open>\<open>a <= y\<close> for a finite \<open>y\<close>.\<close>

fun js_le_fin :: "jsnum \<Rightarrow> real \<Rightarrow> bool" where
  "js_le_fin (Fin x) y = (x \<le> y)"
| "js_le_fin PosInf y = False"
| "js_le_fin NegInf y = True"
| "js_le_fin NaN y = False"

lemma length_filter_less:
  "filter P xs \<noteq> [] \<Longrightarrow> length (filter (\<lambda>x. \<not> P x) xs) < length xs"
  "filter (\<lambda>x. \<not> P x) xs \<noteq> [] \<Longrightarrow> length (filter P xs) < length xs"
proof -
  have sum: "length (filter P xs) + length (filter (\<lambda>x. \<not> P x) xs) = length xs"
    by (rule sum_length_filter_compl)
  show "length (filter (\<lambda>x. \<not> P x) xs) < length xs" if "filter P xs \<noteq> []"
  proof -
    from that have "0 < length (filter P xs)" by blast
    with sum show ?thesis by linarith
  qed
  show "length (filter P xs) < length xs" if "filter (\<lambda>x. \<not> P x) xs \<noteq> []"
  proof -
    from that have "0 < length (filter (\<lambda>x. \<not> P x) xs)" by blast
    with sum show ?thesis by linarith
  qed
qed

text \<open>
  The constructor. The draws of the node at \<open>path\<close> are \<open>rnd path\<close>: the first for the
  feature, the second for the split value. When a row has no element at the drawn index
  (also when the rows are empty, where the index is 0), \<open>Math.min\<close> and \<open>Math.max\<close> give
  \<open>NaN\<close>, which is not equal to itself, the split value is \<open>NaN\<close>, every row goes right and
  the node is external.
\<close>

function IsolationTree_new ::
  "(nat list \<Rightarrow> rand \<times> rand) \<Rightarrow> nat list \<Rightarrow> real list list \<Rightarrow> jsnum \<Rightarrow> nat \<Rightarrow> IsolationTree"
  where
  "IsolationTree_new rnd path data maxDepth currentDepth =
     (if js_le_fin maxDepth (real currentDepth) \<or> length data \<le> 1
      then IsolationTree 0 (Fin 0) None None (length data) True
      else
        (let numFeatures = (case data of [] \<Rightarrow> 0 | row0 # _ \<Rightarrow> length row0);
             sf = nat \<lfloor>Rep_rand (fst (rnd path)) * real numFeatures\<rfloor>;
             featureValues = map (\<lambda>row. elem row sf) data
         in if list_ex (\<lambda>v. v = None) featureValues
            then IsolationTree sf NaN None None (length data) True
            else
              (let minVal = Min (set (map the featureValues));
                   maxVal = Max (set (map the featureValues))
               in if minVal = maxVal
                  then IsolationTree sf (Fin 0) None None (length data) True
                  else
                    (let sv = Rep_rand (snd (rnd path)) * (maxVal - minVal) + minVal;
                         leftData = filter (\<lambda>row. js_lt_elem (elem row sf) (Fin sv)) data;
                         rightData = filter (\<lambda>row. \<not> js_lt_elem (elem row sf) (Fin sv)) data
                     in if length leftData = 0 \<or> length rightData = 0
                        then IsolationTree sf (Fin sv) None None (length data) True
                        else IsolationTree sf (Fin sv)
                               (Some (IsolationTree_new rnd (0 # path) leftData maxDepth
                                        (currentDepth + 1)))
                               (Some (IsolationTree_new rnd (1 # path) rightData maxDepth
                                        (currentDepth + 1)))
                               (length data) False))))"
  by pat_completeness auto
termination
  by (relation "measure (\<lambda>(rnd, path, data, maxDepth, currentDepth). length data)")
     (auto simp: length_filter_less)

declare IsolationTree_new.simps [simp del]

fun pathLength :: "IsolationTree \<Rightarrow> real list \<Rightarrow> nat \<Rightarrow> error + real" where
  "pathLength (IsolationTree sf sv l r n ext) point currentDepth =
     (if ext then Inr (real currentDepth + averagePathLength n)
      else if js_lt_elem (elem point sf) sv then
        (case l of
           None \<Rightarrow> Inl TypeError_null_dereference
         | Some t \<Rightarrow> pathLength t point (currentDepth + 1))
      else
        (case r of
           None \<Rightarrow> Inl TypeError_null_dereference
         | Some t \<Rightarrow> pathLength t point (currentDepth + 1)))"

record IsolationForest =
  itrees :: "IsolationTree list"
  inumTrees :: nat
  sampleSize :: nat

definition new_IsolationForest :: "nat \<Rightarrow> nat \<Rightarrow> IsolationForest" where
  "new_IsolationForest n s = \<lparr>itrees = [], inumTrees = n, sampleSize = s\<rparr>"

text \<open>
  \<open>sample\<close>: the copy of the data is sorted with a comparison that ignores its arguments and
  answers at random, which leaves some permutation of the data; the first
  \<open>Math.min(size, data.length)\<close> elements are kept. The permutation is the one that sorts
  the positions by the keys \<open>keys 0, keys 1, ...\<close>, so every permutation is a value of the
  parameter.
\<close>

definition shuffle :: "(nat \<Rightarrow> nat) \<Rightarrow> 'a list \<Rightarrow> 'a list" where
  "shuffle keys data = map snd (sort_key fst (zip (map keys [0 ..< length data]) data))"

definition sample :: "(nat \<Rightarrow> nat) \<Rightarrow> 'a list \<Rightarrow> nat \<Rightarrow> 'a list" where
  "sample keys data n = take (min n (length data)) (shuffle keys data)"

text \<open>
  \<open>Math.ceil(Math.log2(sampleSize))\<close>; the logarithm of 0 is \<open>-Infinity\<close>.
\<close>

definition maxDepth_of :: "nat \<Rightarrow> jsnum" where
  "maxDepth_of s = (if s = 0 then NegInf else Fin (of_int \<lceil>log 2 (real s)\<rceil>))"

definition IsolationForest_train ::
  "(nat \<Rightarrow> nat \<Rightarrow> nat) \<Rightarrow> (nat \<Rightarrow> nat list \<Rightarrow> rand \<times> rand) \<Rightarrow> IsolationForest
   \<Rightarrow> real list list \<Rightarrow> IsolationForest" where
  "IsolationForest_train keys rnd f data =
     f\<lparr>itrees :=
         map (\<lambda>i. IsolationTree_new (rnd i) [] (sample (keys i) data (sampleSize f))
                     (maxDepth_of (sampleSize f)) 0)
           [0 ..< inumTrees f]\<rparr>"

record IFResult =
  anomalyScore :: jsnum
  if_isAnomaly :: bool

definition IsolationForest_predict :: "IsolationForest \<Rightarrow> real list \<Rightarrow> error + IFResult" where
  "IsolationForest_predict f point =
     (case collect (map (\<lambda>tree. pathLength tree point 0) (itrees f)) of
        Inl e \<Rightarrow> Inl e
      | Inr pathLengths \<Rightarrow>
          (let avg = js_div (foldl (\<lambda>sum len. sum + len) 0 pathLengths)
                       (real (length pathLengths));
               c = averagePathLength (sampleSize f);
               score = js_pow2 (js_div_fin (js_neg avg) c)
           in Inr \<lparr>anomalyScore = score, if_isAnomaly = js_gt_fin score 0.6\<rparr>))"

subsection \<open>Facts about the isolation forest\<close>

lemma ln_2_ge_half: "1 / 2 \<le> ln (2 :: real)"
proof -
  have "exp (1 / 2 :: real) * exp (1 / 2) = exp 1"
    by (simp flip: exp_add)
  moreover have "exp (1 :: real) \<le> 3"
    by (rule exp_le)
  moreover have "0 < exp (1 / 2 :: real)"
    by simp
  ultimately have "exp (1 / 2 :: real) \<le> 2"
  proof -
    assume sq: "exp (1 / 2 :: real) * exp (1 / 2) = exp 1" and le: "exp (1 :: real) \<le> 3"
    show ?thesis
    proof (rule ccontr)
      assume "\<not> exp (1 / 2 :: real) \<le> 2"
      then have "2 < exp (1 / 2 :: real)" by simp
      then have "2 * 2 < exp (1 / 2 :: real) * exp (1 / 2)"
        by (intro mult_strict_mono) simp_all
      with sq le show False by simp
    qed
  qed
  moreover have "(1 / 2 \<le> ln (2 :: real)) = (exp (1 / 2 :: real) \<le> 2)"
    by (rule ln_ge_iff) simp
  ultimately show ?thesis
    by blast
qed

lemma averagePathLength_pos:
  assumes "1 < n"
  shows "0 < averagePathLength n"
proof (cases "n = 2")
  case True
  then show ?thesis
    by (simp add: averagePathLength_def)
next
  case False
  with assms have n: "3 \<le> n" by simp
  then have "ln 2 \<le> ln (real n - 1)"
    by simp
  with ln_2_ge_half have l: "1 / 2 \<le> ln (real n - 1)"
    by linarith
  have "2 * (real n - 1) / real n < 2"
    using n by (simp add: field_simps)
  with l assms show ?thesis
    by (simp add: averagePathLength_def)
qed

lemma averagePathLength_nonneg: "0 \<le> averagePathLength n"
  using averagePathLength_pos [of n]
  by (cases "1 < n") (simp_all add: averagePathLength_def)


text \<open>Every internal node of the isolation tree has both of its children.\<close>

fun ichildren_present :: "IsolationTree \<Rightarrow> bool" where
  "ichildren_present (IsolationTree sf sv l r n ext) =
     (ext \<or>
      (case l of
         None \<Rightarrow> False
       | Some lt \<Rightarrow>
           (case r of None \<Rightarrow> False | Some rt \<Rightarrow> ichildren_present lt \<and> ichildren_present rt)))"

lemma IsolationTree_new_children_present:
  "ichildren_present (IsolationTree_new rnd path data maxDepth currentDepth)"
proof (induction rnd path data maxDepth currentDepth rule: IsolationTree_new.induct)
  case (1 rnd path data maxDepth currentDepth)
  show ?case
    by (subst IsolationTree_new.simps) (use 1 in \<open>auto simp: Let_def\<close>)
qed

lemma pathLength_children_present:
  "ichildren_present t \<Longrightarrow> \<exists>v. pathLength t point d = Inr v \<and> real d \<le> v"
proof (induction t point d rule: pathLength.induct)
  case (1 sf sv l r n ext point currentDepth)
  show ?case
  proof (cases ext)
    case True
    then show ?thesis
      using averagePathLength_nonneg [of n] by simp
  next
    case False
    with "1.prems" obtain lt rt where lr: "l = Some lt" "r = Some rt"
      "ichildren_present lt" "ichildren_present rt"
      by (auto split: option.splits)
    show ?thesis
    proof (cases "js_lt_elem (elem point sf) sv")
      case True
      from "1.IH"(1) [OF False True lr(1) lr(3)] False True lr show ?thesis
        by auto
    next
      case go_right: False
      from "1.IH"(2) [OF False go_right lr(2) lr(4)] False go_right lr show ?thesis
        by auto
    qed
  qed
qed

lemma collect_pathLength:
  "list_all ichildren_present ts \<Longrightarrow>
   \<exists>ls. collect (map (\<lambda>tree. pathLength tree point 0) ts) = Inr ls \<and> length ls = length ts
        \<and> list_all (\<lambda>v. 0 \<le> v) ls"
proof (induction ts)
  case Nil
  then show ?case by simp
next
  case (Cons t ts)
  then have "ichildren_present t" by simp
  from pathLength_children_present [OF this, of point 0]
  obtain v where "pathLength t point 0 = Inr v" "0 \<le> v"
    by auto
  with Cons show ?case
    by auto
qed

lemma foldl_add_sum_list: "foldl (\<lambda>sum len. sum + len) a ls = a + sum_list ls" for a :: real
  by (induction ls arbitrary: a) simp_all

lemma sum_list_nonneg_all: "list_all (\<lambda>v. 0 \<le> v) ls \<Longrightarrow> 0 \<le> sum_list ls" for ls :: "real list"
  by (induction ls) simp_all

lemma two_powr_unit: "x \<le> 0 \<Longrightarrow> 0 < 2 powr x \<and> 2 powr x \<le> (1 :: real)"
  using powr_mono [of x 0 "2 :: real"] by simp

lemma IsolationForest_predict_score:
  assumes "list_all ichildren_present (itrees f)" and "itrees f \<noteq> []" and "1 < sampleSize f"
  shows "\<exists>ls. collect (map (\<lambda>tree. pathLength tree point 0) (itrees f)) = Inr ls
        \<and> length ls = length (itrees f)
        \<and> IsolationForest_predict f point
            = Inr \<lparr>anomalyScore =
                     Fin (2 powr (- (sum_list ls / real (length ls))
                                  / averagePathLength (sampleSize f))),
                   if_isAnomaly =
                     (0.6 < 2 powr (- (sum_list ls / real (length ls))
                                    / averagePathLength (sampleSize f)))\<rparr>
        \<and> 0 < 2 powr (- (sum_list ls / real (length ls)) / averagePathLength (sampleSize f))
        \<and> 2 powr (- (sum_list ls / real (length ls)) / averagePathLength (sampleSize f)) \<le> 1"
proof -
  from collect_pathLength [OF assms(1), of point]
  obtain ls where ls: "collect (map (\<lambda>tree. pathLength tree point 0) (itrees f)) = Inr ls"
    "length ls = length (itrees f)" "list_all (\<lambda>v. 0 \<le> v) ls"
    by blast
  from ls(2) assms(2) have len: "0 < real (length ls)"
    by (cases "itrees f") simp_all
  have c: "0 < averagePathLength (sampleSize f)"
    by (rule averagePathLength_pos [OF assms(3)])
  have "0 \<le> sum_list ls / real (length ls)"
    using sum_list_nonneg_all [OF ls(3)] len by simp
  then have "- (sum_list ls / real (length ls)) \<le> 0"
    by simp
  from divide_nonpos_pos [OF this c]
  have "- (sum_list ls / real (length ls)) / averagePathLength (sampleSize f) \<le> 0" .
  from two_powr_unit [OF this] ls(1,2) len c show ?thesis
    by (simp add: IsolationForest_predict_def Let_def js_div_def foldl_add_sum_list)
qed

lemma IsolationForest_train_trees:
  "list_all ichildren_present (itrees (IsolationForest_train keys rnd f data))
   \<and> length (itrees (IsolationForest_train keys rnd f data)) = inumTrees f
   \<and> inumTrees (IsolationForest_train keys rnd f data) = inumTrees f
   \<and> sampleSize (IsolationForest_train keys rnd f data) = sampleSize f"
  by (simp add: IsolationForest_train_def list_all_iff IsolationTree_new_children_present)


text \<open>Draws for the examples: the sort keys that leave the data in place, and draws of 0.\<close>

definition keys_in_place :: "nat \<Rightarrow> nat \<Rightarrow> nat" where
  "keys_in_place i j = j"

definition draws_zero :: "nat \<Rightarrow> nat list \<Rightarrow> rand \<times> rand" where
  "draws_zero i path = (Abs_rand 0, Abs_rand 0)"

text \<open>
  Claim C5 (for every trained isolation forest and every input point, \<open>predict\<close> returns
  the score \<open>2 ^ (- meanPathLength / c(sampleSize))\<close>, where the mean is over the path
  lengths of all trees and \<open>c\<close> is \<open>averagePathLength\<close>; the score lies in the interval from
  0 (excluded) to 1 (included), and \<open>isAnomaly\<close> is true exactly when the score exceeds
  0.6). As amended: for every trained forest with at least one tree and a sample size
  above 1, as the engine's forest of 50 trees and sample size 128. The constructor
  accepts any numbers: with a sample size of 0 or 1 the normaliser \<open>c\<close> is 0, and with no
  trees the mean is \<open>0 / 0\<close>; the score is then \<open>NaN\<close> (or 0), as the counterexample shows.
\<close>

theorem C5_score_of_forest_with_trees_and_samples:
  assumes "0 < inumTrees f" and "1 < sampleSize f"
  shows "\<exists>ls. collect (map (\<lambda>tree. pathLength tree point 0)
                       (itrees (IsolationForest_train keys rnd f data))) = Inr ls
        \<and> length ls = inumTrees f
        \<and> IsolationForest_predict (IsolationForest_train keys rnd f data) point
            = Inr \<lparr>anomalyScore =
                     Fin (2 powr (- (sum_list ls / real (length ls))
                                  / averagePathLength (sampleSize f))),
                   if_isAnomaly =
                     (0.6 < 2 powr (- (sum_list ls / real (length ls))
                                    / averagePathLength (sampleSize f)))\<rparr>
        \<and> 0 < 2 powr (- (sum_list ls / real (length ls)) / averagePathLength (sampleSize f))
        \<and> 2 powr (- (sum_list ls / real (length ls)) / averagePathLength (sampleSize f)) \<le> 1"
proof -
  let ?f = "IsolationForest_train keys rnd f data"
  from IsolationForest_train_trees [of keys rnd f data]
  have tr: "list_all ichildren_present (itrees ?f)" "length (itrees ?f) = inumTrees f"
    "sampleSize ?f = sampleSize f"
    by simp_all
  from tr(2) assms(1) have ne: "itrees ?f \<noteq> []"
    by auto
  from assms(2) tr(3) have "1 < sampleSize ?f"
    by simp
  from IsolationForest_predict_score [OF tr(1) ne this, of point] tr(2,3) show ?thesis
    by simp
qed

theorem C5_score_of_forest_with_trees_and_samples_witness:
  "0 < inumTrees (new_IsolationForest 50 128) \<and> 1 < sampleSize (new_IsolationForest 50 128)
   \<and> (\<exists>ls. collect (map (\<lambda>tree. pathLength tree [0] 0)
                (itrees (IsolationForest_train keys_in_place draws_zero
                           (new_IsolationForest 50 128) [[0]]))) = Inr ls
        \<and> length ls = 50
        \<and> IsolationForest_predict
             (IsolationForest_train keys_in_place draws_zero (new_IsolationForest 50 128) [[0]]) [0]
            = Inr \<lparr>anomalyScore =
                     Fin (2 powr (- (sum_list ls / real (length ls)) / averagePathLength 128)),
                   if_isAnomaly =
                     (0.6 < 2 powr (- (sum_list ls / real (length ls)) / averagePathLength 128))\<rparr>
        \<and> 0 < 2 powr (- (sum_list ls / real (length ls)) / averagePathLength 128)
        \<and> 2 powr (- (sum_list ls / real (length ls)) / averagePathLength 128) \<le> 1)"
  using C5_score_of_forest_with_trees_and_samples
    [of "new_IsolationForest 50 128" "[0]" keys_in_place draws_zero "[[0]]"]
  by (simp add: new_IsolationForest_def)

theorem C5_counterexample_sample_size_one:
  "IsolationForest_predict
     (IsolationForest_train keys_in_place draws_zero (new_IsolationForest 1 1) [[0]]) [0]
   = Inr \<lparr>anomalyScore = NaN, if_isAnomaly = False\<rparr>"
  by (simp add: IsolationForest_predict_def IsolationForest_train_def new_IsolationForest_def
      maxDepth_of_def sample_def shuffle_def keys_in_place_def IsolationTree_new.simps
      averagePathLength_def js_div_def Let_def)

section \<open>Threat detection engine\<close>

record NetworkFeature =
  timestamp :: int
  requestCount :: real
  failedRequests :: real
  responseTime :: real
  dataTransferred :: real
  uniqueDomains :: real
  httpErrors :: real
  suspiciousPatterns :: real
  memoryUsage :: real
  cpuUsage :: real
  clickRate :: real
  navigationRate :: real

text \<open>
  The argument \<open>networkData\<close> of \<open>extractFeatures\<close> and \<open>detectThreats\<close>: an object read at
  eleven properties. \<open>None\<close> stands for a property that is missing (or holds \<open>NaN\<close>), which
  \<open>|| 0\<close> replaces by 0.
\<close>

record RawMetrics =
  raw_requestCount :: "real option"
  raw_failedRequests :: "real option"
  raw_averageResponseTime :: "real option"
  raw_totalDataTransferred :: "real option"
  raw_uniqueDomains :: "real option"
  raw_httpErrors :: "real option"
  raw_suspiciousPatterns :: "real option"
  raw_memoryUsage :: "real option"
  raw_cpuUsage :: "real option"
  raw_clickRate :: "real option"
  raw_navigationRate :: "real option"

datatype Level = low | medium | high | critical

datatype Algorithm = random_forest | isolation_forest | ensemble

text \<open>\<open>contributing\<close> is the field \<open>features\<close> of a prediction.\<close>

record ThreatPrediction =
  isAnomaly :: bool
  threatScore :: jsnum
  confidence :: jsnum
  riskLevel :: Level
  contributing :: "string list"
  algorithm :: Algorithm

text \<open>The lines the engine writes to the console.\<close>

datatype console_line = Log_models_trained | Error_training_models error

text \<open>
  The engine object. \<open>console\<close> is not a field: it collects what the engine has written
  to the console, the one effect of \<open>trainModels\<close> outside the object.
\<close>

record MLThreatDetection =
  randomForest :: RandomForest
  isolationForest :: IsolationForest
  trainingData :: "TrainingData list"
  featureHistory :: "NetworkFeature list"
  isTraining :: bool
  modelTrained :: bool
  console :: "console_line list"

text \<open>The draws of one call of \<open>trainModels\<close>.\<close>

record Draws =
  bootstrap_draws :: "nat \<Rightarrow> nat \<Rightarrow> rand"
  sample_keys :: "nat \<Rightarrow> nat \<Rightarrow> nat"
  tree_draws :: "nat \<Rightarrow> nat list \<Rightarrow> rand \<times> rand"

text \<open>
  \<open>trainModels\<close> is declared \<open>async\<close> but awaits nothing, so it runs to its end within the
  call. An exception of the training is caught and logged.
\<close>

definition trainModels :: "Draws \<Rightarrow> MLThreatDetection \<Rightarrow> MLThreatDetection" where
  "trainModels dr s =
     (if isTraining s then s
      else
        (let r = RandomForest_train (bootstrap_draws dr) (randomForest s) (trainingData s)
         in case fst r of
              Some e \<Rightarrow>
                s\<lparr>randomForest := snd r, isTraining := False,
                  console := console s @ [Error_training_models e]\<rparr>
            | None \<Rightarrow>
                s\<lparr>randomForest := snd r,
                  isolationForest :=
                    IsolationForest_train (sample_keys dr) (tree_draws dr) (isolationForest s)
                      (map features (trainingData s)),
                  isTraining := False, modelTrained := True,
                  console := console s @ [Log_models_trained]\<rparr>))"

text \<open>The synthetic patterns; \<open>rnd i j\<close> is draw \<open>j\<close> of pattern \<open>i\<close>.\<close>

definition generateNormalTrafficPatterns :: "(nat \<Rightarrow> nat \<Rightarrow> rand) \<Rightarrow> nat \<Rightarrow> real list list" where
  "generateNormalTrafficPatterns rnd n =
     map (\<lambda>i. [Rep_rand (rnd i 0) * 50 + 10,
                Rep_rand (rnd i 1) * 5,
                Rep_rand (rnd i 2) * 200 + 50,
                Rep_rand (rnd i 3) * 1000 + 100,
                Rep_rand (rnd i 4) * 10 + 1,
                Rep_rand (rnd i 5) * 3,
                0,
                Rep_rand (rnd i 6) * 50 + 20,
                Rep_rand (rnd i 7) * 30 + 10,
                Rep_rand (rnd i 8) * 5 + 1,
                Rep_rand (rnd i 9) * 3 + 0.5]) [0 ..< n]"

definition generateThreatPatterns :: "(nat \<Rightarrow> nat \<Rightarrow> rand) \<Rightarrow> nat \<Rightarrow> real list list" where
  "generateThreatPatterns rnd n =
     map (\<lambda>i. [Rep_rand (rnd i 0) * 200 + 100,
                Rep_rand (rnd i 1) * 50 + 10,
                Rep_rand (rnd i 2) * 2000 + 500,
                Rep_rand (rnd i 3) * 5000 + 1000,
                Rep_rand (rnd i 4) * 50 + 20,
                Rep_rand (rnd i 5) * 20 + 5,
                Rep_rand (rnd i 6) * 10 + 3,
                Rep_rand (rnd i 7) * 40 + 70,
                Rep_rand (rnd i 8) * 50 + 60,
                Rep_rand (rnd i 9) * 50 + 20,
                Rep_rand (rnd i 10) * 20 + 10]) [0 ..< n]"

text \<open>The object after its field initialisers and the two \<open>new\<close> of the constructor.\<close>

definition MLThreatDetection_fields :: MLThreatDetection where
  "MLThreatDetection_fields =
     \<lparr>randomForest = new_RandomForest 50, isolationForest = new_IsolationForest 50 128,
      trainingData = [], featureHistory = [], isTraining = False, modelTrained = False,
      console = []\<rparr>"

definition initializeTrainingData ::
  "(nat \<Rightarrow> nat \<Rightarrow> rand) \<Rightarrow> (nat \<Rightarrow> nat \<Rightarrow> rand) \<Rightarrow> Draws \<Rightarrow> MLThreatDetection \<Rightarrow> MLThreatDetection"
  where
  "initializeTrainingData normal_draws threat_draws dr s =
     trainModels dr
       (s\<lparr>trainingData :=
            map (\<lambda>v. \<lparr>features = v, label = 0\<rparr>) (generateNormalTrafficPatterns normal_draws 200)
            @ map (\<lambda>v. \<lparr>features = v, label = 1\<rparr>) (generateThreatPatterns threat_draws 50)\<rparr>)"

definition new_MLThreatDetection ::
  "(nat \<Rightarrow> nat \<Rightarrow> rand) \<Rightarrow> (nat \<Rightarrow> nat \<Rightarrow> rand) \<Rightarrow> Draws \<Rightarrow> MLThreatDetection" where
  "new_MLThreatDetection normal_draws threat_draws dr =
     initializeTrainingData normal_draws threat_draws dr MLThreatDetection_fields"

text \<open>\<open>x || 0\<close> on a property.\<close>

definition or_zero :: "real option \<Rightarrow> real" where
  "or_zero v = (case v of None \<Rightarrow> 0 | Some x \<Rightarrow> x)"

text \<open>
  \<open>extractFeatures\<close>; \<open>now\<close> is the reading of \<open>Date.now()\<close>. The history of the last
  minute that the method filters out is not used by it.
\<close>

definition extractFeatures :: "int \<Rightarrow> RawMetrics \<Rightarrow> MLThreatDetection \<Rightarrow> NetworkFeature" where
  "extractFeatures now networkData s =
     \<lparr>timestamp = now,
      requestCount = or_zero (raw_requestCount networkData),
      failedRequests = or_zero (raw_failedRequests networkData),
      responseTime = or_zero (raw_averageResponseTime networkData),
      dataTransferred = or_zero (raw_totalDataTransferred networkData),
      uniqueDomains = or_zero (raw_uniqueDomains networkData),
      httpErrors = or_zero (raw_httpErrors networkData),
      suspiciousPatterns = or_zero (raw_suspiciousPatterns networkData),
      memoryUsage = or_zero (raw_memoryUsage networkData),
      cpuUsage = or_zero (raw_cpuUsage networkData),
      clickRate = or_zero (raw_clickRate networkData),
      navigationRate = or_zero (raw_navigationRate networkData)\<rparr>"

definition featureVector :: "NetworkFeature \<Rightarrow> real list" where
  "featureVector f =
     [requestCount f, failedRequests f, responseTime f, dataTransferred f, uniqueDomains f,
      httpErrors f, suspiciousPatterns f, memoryUsage f, cpuUsage f, clickRate f,
      navigationRate f]"

definition contributingFeatures :: "NetworkFeature \<Rightarrow> string list" where
  "contributingFeatures f =
     (if 10 < failedRequests f then [''High failed requests''] else [])
     @ (if 100 < requestCount f then [''Excessive request volume''] else [])
     @ (if 1000 < responseTime f then [''Slow response times''] else [])
     @ (if 5 < suspiciousPatterns f then [''Suspicious patterns detected''] else [])
     @ (if 80 < memoryUsage f then [''High memory usage''] else [])
     @ (if 20 < clickRate f then [''Abnormal click patterns''] else [])"

definition neutral_prediction :: ThreatPrediction where
  "neutral_prediction =
     \<lparr>isAnomaly = False, threatScore = Fin 0, confidence = Fin 0, riskLevel = low,
      contributing = [], algorithm = ensemble\<rparr>"

definition risk_of :: "jsnum \<Rightarrow> Level" where
  "risk_of score =
     (if js_gt_fin score 0.8 then critical
      else if js_gt_fin score 0.6 then high
      else if js_gt_fin score 0.4 then medium
      else low)"

text \<open>
  The fusion of the two results, the second half of \<open>detectThreats\<close>.
\<close>

definition ensemble_prediction :: "NetworkFeature \<Rightarrow> RFResult \<Rightarrow> IFResult \<Rightarrow> ThreatPrediction" where
  "ensemble_prediction f rfResult ifResult =
     (let score = js_add_fin (js_mul_fin (anomalyScore ifResult) 0.4)
                    (real (rf_prediction rfResult) * 0.6);
          conf = js_div_fin (js_add_fin (rf_confidence rfResult)
                               (if js_gt_fin (anomalyScore ifResult) 0.6 then 1 else 0)) 2
      in \<lparr>isAnomaly = (rf_prediction rfResult = 1 \<or> if_isAnomaly ifResult),
          threatScore = score, confidence = conf, riskLevel = risk_of score,
          contributing = contributingFeatures f, algorithm = ensemble\<rparr>)"

text \<open>
  \<open>detectThreats\<close>: the prediction (or the exception that rejects the promise) and the
  engine after the call. One reading of the clock serves the whole call.
\<close>

definition detectThreats ::
  "int \<Rightarrow> RawMetrics \<Rightarrow> MLThreatDetection \<Rightarrow> (error + ThreatPrediction) \<times> MLThreatDetection" where
  "detectThreats now networkData s =
     (if \<not> modelTrained s then (Inr neutral_prediction, s)
      else
        (let f = extractFeatures now networkData s;
             s' = s\<lparr>featureHistory :=
                      filter (\<lambda>h. now - timestamp h < 300000) (featureHistory s @ [f])\<rparr>
         in case RandomForest_predict (randomForest s') (featureVector f) of
              Inl e \<Rightarrow> (Inl e, s')
            | Inr rfResult \<Rightarrow>
                (case IsolationForest_predict (isolationForest s') (featureVector f) of
                   Inl e \<Rightarrow> (Inl e, s')
                 | Inr ifResult \<Rightarrow> (Inr (ensemble_prediction f rfResult ifResult), s'))))"

text \<open>\<open>xs.slice(-n)\<close>: the last \<open>n\<close> elements, all of them when there are fewer.\<close>

definition slice_last :: "nat \<Rightarrow> 'a list \<Rightarrow> 'a list" where
  "slice_last n xs = drop (length xs - n) xs"

definition retrainWithFeedback ::
  "Draws \<Rightarrow> NetworkFeature \<Rightarrow> bool \<Rightarrow> MLThreatDetection \<Rightarrow> MLThreatDetection" where
  "retrainWithFeedback dr f isThreat s =
     (let s1 = s\<lparr>trainingData :=
                   trainingData s
                   @ [\<lparr>features = featureVector f, label = (if isThreat then 1 else 0)\<rparr>]\<rparr>;
          s2 = (if 1000 < length (trainingData s1)
                then s1\<lparr>trainingData := slice_last 800 (trainingData s1)\<rparr> else s1)
      in if length (trainingData s2) mod 50 = 0 then trainModels dr s2 else s2)"

record ModelStats =
  trainingDataSize :: nat
  stats_modelTrained :: bool
  featureHistorySize :: nat
  lastTrainingTime :: "int option"

text \<open>
  \<open>getModelStats\<close> assigns no field; \<open>now\<close> is the time \<open>new Date()\<close> reads, and \<open>None\<close> is
  \<open>null\<close>.
\<close>

definition getModelStats :: "int \<Rightarrow> MLThreatDetection \<Rightarrow> ModelStats" where
  "getModelStats now s =
     \<lparr>trainingDataSize = length (trainingData s),
      stats_modelTrained = modelTrained s,
      featureHistorySize = length (featureHistory s),
      lastTrainingTime = (if modelTrained s then Some now else None)\<rparr>"

text \<open>
  The states of the engine: the one the constructor leaves, and those that the two calls
  that change the object lead to, for every argument and every draw.
\<close>

inductive reachable :: "MLThreatDetection \<Rightarrow> bool" where
  constructed: "reachable (new_MLThreatDetection normal_draws threat_draws dr)"
| detected: "reachable s \<Longrightarrow> reachable (snd (detectThreats now networkData s))"
| retrained: "reachable s \<Longrightarrow> reachable (retrainWithFeedback dr f isThreat s)"

subsection \<open>Facts about the engine\<close>

text \<open>What holds of the engine between calls.\<close>

definition engine_inv :: "MLThreatDetection \<Rightarrow> bool" where
  "engine_inv s =
     (modelTrained s \<and> \<not> isTraining s \<and> trainingData s \<noteq> []
      \<and> numTrees (randomForest s) = 50 \<and> length (trees (randomForest s)) = 50
      \<and> list_all trained_tree (trees (randomForest s))
      \<and> inumTrees (isolationForest s) = 50 \<and> sampleSize (isolationForest s) = 128
      \<and> length (itrees (isolationForest s)) = 50
      \<and> list_all ichildren_present (itrees (isolationForest s)))"

lemma trainModels_trains:
  assumes "\<not> isTraining s" and "trainingData s \<noteq> []"
  shows "trainModels dr s =
           s\<lparr>randomForest := snd (RandomForest_train (bootstrap_draws dr) (randomForest s)
                                     (trainingData s)),
             isolationForest :=
               IsolationForest_train (sample_keys dr) (tree_draws dr) (isolationForest s)
                 (map features (trainingData s)),
             isTraining := False, modelTrained := True,
             console := console s @ [Log_models_trained]\<rparr>"
  using assms RandomForest_train_nonempty [OF assms(2), of "bootstrap_draws dr" "randomForest s"]
  by (auto simp: trainModels_def Let_def)

lemma trainModels_inv:
  assumes "\<not> isTraining s" and "trainingData s \<noteq> []"
    and "numTrees (randomForest s) = 50"
    and "inumTrees (isolationForest s) = 50" and "sampleSize (isolationForest s) = 128"
  shows "engine_inv (trainModels dr s)"
  using assms RandomForest_train_nonempty [OF assms(2), of "bootstrap_draws dr" "randomForest s"]
    IsolationForest_train_trees [of "sample_keys dr" "tree_draws dr" "isolationForest s"
      "map features (trainingData s)"]
  by (auto simp: trainModels_trains [OF assms(1,2)] engine_inv_def)

lemma new_MLThreatDetection_trainingData:
  "length (trainingData (new_MLThreatDetection normal_draws threat_draws dr)) = 250"
  by (simp add: new_MLThreatDetection_def initializeTrainingData_def MLThreatDetection_fields_def
      trainModels_trains generateNormalTrafficPatterns_def generateThreatPatterns_def)

lemma new_MLThreatDetection_console:
  "console (new_MLThreatDetection normal_draws threat_draws dr) = [Log_models_trained]"
  by (simp add: new_MLThreatDetection_def initializeTrainingData_def MLThreatDetection_fields_def
      trainModels_trains generateNormalTrafficPatterns_def generateThreatPatterns_def)

lemma new_MLThreatDetection_inv:
  "engine_inv (new_MLThreatDetection normal_draws threat_draws dr)"
  unfolding new_MLThreatDetection_def initializeTrainingData_def
  by (rule trainModels_inv)
     (simp_all add: MLThreatDetection_fields_def new_RandomForest_def new_IsolationForest_def
       generateNormalTrafficPatterns_def generateThreatPatterns_def)

lemma detectThreats_frame:
  "trainingData (snd (detectThreats now networkData s)) = trainingData s
   \<and> console (snd (detectThreats now networkData s)) = console s
   \<and> randomForest (snd (detectThreats now networkData s)) = randomForest s
   \<and> isolationForest (snd (detectThreats now networkData s)) = isolationForest s
   \<and> isTraining (snd (detectThreats now networkData s)) = isTraining s
   \<and> modelTrained (snd (detectThreats now networkData s)) = modelTrained s"
  by (simp add: detectThreats_def Let_def split: sum.splits)

lemma detectThreats_inv: "engine_inv s \<Longrightarrow> engine_inv (snd (detectThreats now networkData s))"
  by (simp add: engine_inv_def detectThreats_frame)

lemma retrainWithFeedback_trainingData:
  "trainingData (retrainWithFeedback dr f isThreat s)
   = (if 1000 < length (trainingData s) + 1
      then slice_last 800
             (trainingData s
              @ [\<lparr>features = featureVector f, label = (if isThreat then 1 else 0)\<rparr>])
      else trainingData s
           @ [\<lparr>features = featureVector f, label = (if isThreat then 1 else 0)\<rparr>])"
  by (simp add: retrainWithFeedback_def Let_def trainModels_def split: option.splits)

lemma retrainWithFeedback_inv:
  assumes "engine_inv s"
  shows "engine_inv (retrainWithFeedback dr f isThreat s)"
proof -
  let ?s1 = "s\<lparr>trainingData :=
                 trainingData s
                 @ [\<lparr>features = featureVector f, label = (if isThreat then 1 else 0)\<rparr>]\<rparr>"
  let ?s2 = "if 1000 < length (trainingData ?s1)
             then ?s1\<lparr>trainingData := slice_last 800 (trainingData ?s1)\<rparr> else ?s1"
  have ne: "trainingData ?s2 \<noteq> []"
    by (simp add: slice_last_def)
  from assms have inv2: "engine_inv ?s2"
    using ne by (simp add: engine_inv_def)
  show ?thesis
  proof (cases "length (trainingData ?s2) mod 50 = 0")
    case True
    have "engine_inv (trainModels dr ?s2)"
      using inv2 by (intro trainModels_inv) (simp_all add: engine_inv_def)
    with True show ?thesis
      by (simp add: retrainWithFeedback_def Let_def)
  next
    case False
    with inv2 show ?thesis
      by (simp add: retrainWithFeedback_def Let_def)
  qed
qed

lemma reachable_inv: "reachable s \<Longrightarrow> engine_inv s"
  by (induction rule: reachable.induct)
     (simp_all add: new_MLThreatDetection_inv detectThreats_inv retrainWithFeedback_inv)


text \<open>Draws for the examples.\<close>

definition pattern_draws_zero :: "nat \<Rightarrow> nat \<Rightarrow> rand" where
  "pattern_draws_zero i j = Abs_rand 0"

definition training_draws_zero :: Draws where
  "training_draws_zero =
     \<lparr>bootstrap_draws = pattern_draws_zero, sample_keys = keys_in_place, tree_draws = draws_zero\<rparr>"

definition example_engine :: MLThreatDetection where
  "example_engine = new_MLThreatDetection pattern_draws_zero pattern_draws_zero training_draws_zero"

definition no_metrics :: RawMetrics where
  "no_metrics =
     \<lparr>raw_requestCount = None, raw_failedRequests = None, raw_averageResponseTime = None,
      raw_totalDataTransferred = None, raw_uniqueDomains = None, raw_httpErrors = None,
      raw_suspiciousPatterns = None, raw_memoryUsage = None, raw_cpuUsage = None,
      raw_clickRate = None, raw_navigationRate = None\<rparr>"

lemma reachable_example_engine: "reachable example_engine"
  unfolding example_engine_def by (rule reachable.constructed)

lemma risk_of_Fin:
  "risk_of (Fin t) =
     (if 0.8 < t then critical else if 0.6 < t then high else if 0.4 < t then medium else low)"
  by (simp add: risk_of_def)

text \<open>
  Both forests hold what a training leaves: as many trees as \<open>numTrees\<close> says and at least
  one, every internal node with both children, and a sample size above 1.
\<close>

definition forests_trained :: "MLThreatDetection \<Rightarrow> bool" where
  "forests_trained s =
     (length (trees (randomForest s)) = numTrees (randomForest s)
      \<and> 0 < numTrees (randomForest s)
      \<and> list_all children_present (trees (randomForest s))
      \<and> itrees (isolationForest s) \<noteq> []
      \<and> 1 < sampleSize (isolationForest s)
      \<and> list_all ichildren_present (itrees (isolationForest s)))"

lemma engine_inv_forests_trained: "engine_inv s \<Longrightarrow> modelTrained s \<and> forests_trained s"
proof -
  assume inv: "engine_inv s"
  then have "list_all trained_tree (trees (randomForest s))"
    by (simp add: engine_inv_def)
  then have "list_all children_present (trees (randomForest s))"
    by (simp add: list_all_iff trained_tree_def)
  with inv show ?thesis
    by (auto simp: engine_inv_def forests_trained_def)
qed

lemma reachable_forests_trained: "reachable s \<Longrightarrow> modelTrained s \<and> forests_trained s"
  by (rule engine_inv_forests_trained) (rule reachable_inv)

lemma collect_predict_children_present:
  "list_all children_present ts \<Longrightarrow> \<exists>ps. collect (map (\<lambda>tree. predict tree x) ts) = Inr ps"
proof (induction ts)
  case Nil
  then show ?case by simp
next
  case (Cons t ts)
  then have "children_present t" by simp
  from predict_children_present [OF this, of x] obtain v where "predict t x = Inr v"
    by blast
  with Cons show ?case
    by auto
qed

lemma detectThreats_fusion:
  assumes "modelTrained s"
    and "RandomForest_predict (randomForest s)
           (featureVector (extractFeatures now networkData s)) = Inr rfResult"
    and "IsolationForest_predict (isolationForest s)
           (featureVector (extractFeatures now networkData s)) = Inr ifResult"
  shows "fst (detectThreats now networkData s)
         = Inr (ensemble_prediction (extractFeatures now networkData s) rfResult ifResult)"
  using assms by (simp add: detectThreats_def Let_def)

lemma fused_ranges:
  fixes a c :: real and k :: nat
  assumes "k \<le> 1" and "0 < a" and "a \<le> 1" and "0 \<le> c" and "c \<le> 1"
  shows "0 \<le> 0.6 * real k + 0.4 * a" and "0.6 * real k + 0.4 * a \<le> 1"
    and "0 \<le> (c + (if 0.6 < a then 1 else 0)) / 2"
    and "(c + (if 0.6 < a then 1 else 0)) / 2 \<le> 1"
proof -
  from assms(1) have k: "0 \<le> real k" "real k \<le> 1"
    by simp_all
  with assms(2,3) show "0 \<le> 0.6 * real k + 0.4 * a" "0.6 * real k + 0.4 * a \<le> 1"
    by simp_all
  from assms(4,5) show "0 \<le> (c + (if 0.6 < a then 1 else 0)) / 2"
    "(c + (if 0.6 < a then 1 else 0)) / 2 \<le> 1"
    by simp_all
qed

text \<open>
  Claim C1 (for every trained engine state, \<open>detectThreats\<close> returns
  \<open>threatScore = 0.6 * rfPrediction + 0.4 * ifAnomalyScore\<close>,
  \<open>confidence = (rfConfidence + (1 if ifAnomalyScore > 0.6 else 0)) / 2\<close>,
  \<open>isAnomaly = (rfPrediction = 1 or ifIsAnomaly)\<close> and the risk level critical above 0.8,
  high above 0.6, medium above 0.4 and low otherwise; the score and the confidence lie
  between 0 and 1). A trained state has the flag set and both forests as a training
  leaves them; the two results are those of the forests' \<open>predict\<close> on the extracted
  feature vector, whatever the trees vote. Every reachable state is such a state
  (\<open>reachable_forests_trained\<close>), and so is one whose trees vote the number 1.
\<close>

theorem C1_ensemble_fusion:
  assumes "modelTrained s" and "forests_trained s"
  shows "\<exists>rfResult ifResult c a p.
          RandomForest_predict (randomForest s) (featureVector (extractFeatures now networkData s))
            = Inr rfResult
        \<and> IsolationForest_predict (isolationForest s)
              (featureVector (extractFeatures now networkData s)) = Inr ifResult
        \<and> rf_confidence rfResult = Fin c \<and> anomalyScore ifResult = Fin a
        \<and> fst (detectThreats now networkData s) = Inr p
        \<and> threatScore p = Fin (0.6 * real (rf_prediction rfResult) + 0.4 * a)
        \<and> confidence p = Fin ((c + (if 0.6 < a then 1 else 0)) / 2)
        \<and> isAnomaly p = (rf_prediction rfResult = 1 \<or> if_isAnomaly ifResult)
        \<and> riskLevel p =
            (if 0.8 < 0.6 * real (rf_prediction rfResult) + 0.4 * a then critical
             else if 0.6 < 0.6 * real (rf_prediction rfResult) + 0.4 * a then high
             else if 0.4 < 0.6 * real (rf_prediction rfResult) + 0.4 * a then medium
             else low)
        \<and> 0 \<le> 0.6 * real (rf_prediction rfResult) + 0.4 * a
        \<and> 0.6 * real (rf_prediction rfResult) + 0.4 * a \<le> 1
        \<and> 0 \<le> (c + (if 0.6 < a then 1 else 0)) / 2
        \<and> (c + (if 0.6 < a then 1 else 0)) / 2 \<le> 1"
proof -
  let ?f = "extractFeatures now networkData s"
  let ?v = "featureVector ?f"
  from assms(2) have rf_shape: "length (trees (randomForest s)) = numTrees (randomForest s)"
    "0 < numTrees (randomForest s)" "list_all children_present (trees (randomForest s))"
    and if_shape: "list_all ichildren_present (itrees (isolationForest s))"
    "itrees (isolationForest s) \<noteq> []" "1 < sampleSize (isolationForest s)"
    by (simp_all add: forests_trained_def)
  from collect_predict_children_present [OF rf_shape(3), of ?v]
  obtain ps where ps: "collect (map (\<lambda>tree. predict tree ?v) (trees (randomForest s))) = Inr ps"
    by blast
  define tc where "tc = length (filter (\<lambda>p. strict_eq_num p 1) ps)"
  define k :: nat where "k = (if real (numTrees (randomForest s)) / 2 < real tc then 1 else 0)"
  define c where "c = \<bar>real tc / real (numTrees (randomForest s)) - 0.5\<bar> * 2"
  from RandomForest_predict_arithmetic [OF ps rf_shape(1,2)]
  have rf: "RandomForest_predict (randomForest s) ?v = Inr \<lparr>rf_prediction = k, rf_confidence = Fin c\<rparr>"
    and c: "0 \<le> c" "c \<le> 1"
    by (simp_all add: tc_def k_def c_def)
  have k: "k \<le> 1"
    by (simp add: k_def)
  from IsolationForest_predict_score [OF if_shape, of ?v]
  obtain a where a: "IsolationForest_predict (isolationForest s) ?v
                     = Inr \<lparr>anomalyScore = Fin a, if_isAnomaly = (0.6 < a)\<rparr>"
    "0 < a" "a \<le> 1"
    by blast
  from detectThreats_fusion [OF assms(1) rf a(1)]
  have det: "fst (detectThreats now networkData s)
        = Inr (ensemble_prediction ?f \<lparr>rf_prediction = k, rf_confidence = Fin c\<rparr>
                 \<lparr>anomalyScore = Fin a, if_isAnomaly = (0.6 < a)\<rparr>)" .
  have fields:
    "threatScore (ensemble_prediction ?f \<lparr>rf_prediction = k, rf_confidence = Fin c\<rparr>
                    \<lparr>anomalyScore = Fin a, if_isAnomaly = (0.6 < a)\<rparr>)
     = Fin (0.6 * real k + 0.4 * a)"
    "confidence (ensemble_prediction ?f \<lparr>rf_prediction = k, rf_confidence = Fin c\<rparr>
                   \<lparr>anomalyScore = Fin a, if_isAnomaly = (0.6 < a)\<rparr>)
     = Fin ((c + (if 0.6 < a then 1 else 0)) / 2)"
    "isAnomaly (ensemble_prediction ?f \<lparr>rf_prediction = k, rf_confidence = Fin c\<rparr>
                  \<lparr>anomalyScore = Fin a, if_isAnomaly = (0.6 < a)\<rparr>)
     = (k = 1 \<or> 0.6 < a)"
    "riskLevel (ensemble_prediction ?f \<lparr>rf_prediction = k, rf_confidence = Fin c\<rparr>
                  \<lparr>anomalyScore = Fin a, if_isAnomaly = (0.6 < a)\<rparr>)
     = (if 0.8 < 0.6 * real k + 0.4 * a then critical
        else if 0.6 < 0.6 * real k + 0.4 * a then high
        else if 0.4 < 0.6 * real k + 0.4 * a then medium
        else low)"
    by (simp_all add: ensemble_prediction_def Let_def risk_of_Fin js_div_def)
  show ?thesis
    apply (rule exI [of _ "\<lparr>rf_prediction = k, rf_confidence = Fin c\<rparr>"])
    apply (rule exI [of _ "\<lparr>anomalyScore = Fin a, if_isAnomaly = (0.6 < a)\<rparr>"])
    apply (rule exI [of _ c])
    apply (rule exI [of _ a])
    apply (rule exI [of _ "ensemble_prediction ?f \<lparr>rf_prediction = k, rf_confidence = Fin c\<rparr>
                 \<lparr>anomalyScore = Fin a, if_isAnomaly = (0.6 < a)\<rparr>"])
    using rf a(1) det fields fused_ranges [OF k a(2,3) c]
    apply simp
    done
qed


text \<open>
  An engine whose one decision tree is a leaf that votes the number 1, as the declared
  type of the field has it, and whose one isolation tree is an external node of \<open>n\<close> rows.
\<close>

definition voting_engine :: "nat \<Rightarrow> MLThreatDetection" where
  "voting_engine n =
     \<lparr>randomForest =
        \<lparr>trees = [DecisionTree (Fin 0) 0 None None (JNum 1) True], numTrees = 1\<rparr>,
      isolationForest =
        \<lparr>itrees = [IsolationTree 0 (Fin 0) None None n True], inumTrees = 1, sampleSize = 128\<rparr>,
      trainingData = [], featureHistory = [], isTraining = False, modelTrained = True,
      console = []\<rparr>"

lemma voting_engine_trained: "modelTrained (voting_engine n) \<and> forests_trained (voting_engine n)"
  by (simp add: voting_engine_def forests_trained_def)

lemma voting_engine_forest:
  "RandomForest_predict (randomForest (voting_engine n)) x
   = Inr \<lparr>rf_prediction = 1, rf_confidence = Fin 1\<rparr>"
  by (simp add: voting_engine_def RandomForest_predict_def js_div_def Let_def)

lemma averagePathLength_128: "averagePathLength 128 \<noteq> 0"
  using averagePathLength_pos [of 128] by simp

lemma voting_engine_score:
  "IsolationForest_predict (isolationForest (voting_engine n)) x
   = Inr \<lparr>anomalyScore = Fin (2 powr (- averagePathLength n / averagePathLength 128)),
           if_isAnomaly = (0.6 < 2 powr (- averagePathLength n / averagePathLength 128))\<rparr>"
  by (simp add: voting_engine_def IsolationForest_predict_def js_div_def Let_def
      averagePathLength_128)

lemma voting_engine_score_1:
  "IsolationForest_predict (isolationForest (voting_engine 1)) x
   = Inr \<lparr>anomalyScore = Fin 1, if_isAnomaly = True\<rparr>"
proof -
  have "averagePathLength 1 = 0"
    by (simp add: averagePathLength_def)
  then have "2 powr (- averagePathLength 1 / averagePathLength 128) = 1"
    by simp
  then show ?thesis
    by (simp only: voting_engine_score) simp
qed

lemma voting_engine_score_128:
  "IsolationForest_predict (isolationForest (voting_engine 128)) x
   = Inr \<lparr>anomalyScore = Fin (1 / 2), if_isAnomaly = False\<rparr>"
proof -
  have "- averagePathLength 128 / averagePathLength 128 = - 1"
    using averagePathLength_128 by simp
  moreover have "2 powr (- 1) = (1 / 2 :: real)"
    by (simp add: powr_minus_divide)
  ultimately have "2 powr (- averagePathLength 128 / averagePathLength 128) = 1 / 2"
    by (simp only:)
  then show ?thesis
    by (simp only: voting_engine_score) simp
qed

lemma example_features:
  "contributingFeatures (extractFeatures 0 no_metrics s) = []"
  by (simp add: contributingFeatures_def extractFeatures_def no_metrics_def or_zero_def)

lemma voting_engine_critical:
  "fst (detectThreats 0 no_metrics (voting_engine 1))
   = Inr \<lparr>isAnomaly = True, threatScore = Fin 1, confidence = Fin 1, riskLevel = critical,
           contributing = [], algorithm = ensemble\<rparr>"
proof -
  have "modelTrained (voting_engine 1)"
    by (simp add: voting_engine_def)
  from detectThreats_fusion [OF this voting_engine_forest voting_engine_score_1]
  show ?thesis
    by (simp add: ensemble_prediction_def risk_of_def example_features js_div_def Let_def)
qed

lemma voting_engine_high:
  "fst (detectThreats 0 no_metrics (voting_engine 128))
   = Inr \<lparr>isAnomaly = True, threatScore = Fin (4 / 5), confidence = Fin (1 / 2),
           riskLevel = high, contributing = [], algorithm = ensemble\<rparr>"
proof -
  have "modelTrained (voting_engine 128)"
    by (simp add: voting_engine_def)
  from detectThreats_fusion [OF this voting_engine_forest voting_engine_score_128]
  show ?thesis
    by (simp add: ensemble_prediction_def risk_of_def example_features js_div_def Let_def)
qed

theorem C1_ensemble_fusion_witness:
  "modelTrained (voting_engine 1) \<and> forests_trained (voting_engine 1)
   \<and> (\<exists>rfResult ifResult c a p.
          RandomForest_predict (randomForest (voting_engine 1))
              (featureVector (extractFeatures 0 no_metrics (voting_engine 1))) = Inr rfResult
        \<and> IsolationForest_predict (isolationForest (voting_engine 1))
              (featureVector (extractFeatures 0 no_metrics (voting_engine 1))) = Inr ifResult
        \<and> rf_confidence rfResult = Fin c \<and> anomalyScore ifResult = Fin a
        \<and> fst (detectThreats 0 no_metrics (voting_engine 1)) = Inr p
        \<and> threatScore p = Fin (0.6 * real (rf_prediction rfResult) + 0.4 * a)
        \<and> confidence p = Fin ((c + (if 0.6 < a then 1 else 0)) / 2)
        \<and> isAnomaly p = (rf_prediction rfResult = 1 \<or> if_isAnomaly ifResult)
        \<and> riskLevel p =
            (if 0.8 < 0.6 * real (rf_prediction rfResult) + 0.4 * a then critical
             else if 0.6 < 0.6 * real (rf_prediction rfResult) + 0.4 * a then high
             else if 0.4 < 0.6 * real (rf_prediction rfResult) + 0.4 * a then medium
             else low)
        \<and> 0 \<le> 0.6 * real (rf_prediction rfResult) + 0.4 * a
        \<and> 0.6 * real (rf_prediction rfResult) + 0.4 * a \<le> 1
        \<and> 0 \<le> (c + (if 0.6 < a then 1 else 0)) / 2
        \<and> (c + (if 0.6 < a then 1 else 0)) / 2 \<le> 1)
   \<and> fst (detectThreats 0 no_metrics (voting_engine 1))
       = Inr \<lparr>isAnomaly = True, threatScore = Fin 1, confidence = Fin 1, riskLevel = critical,
               contributing = [], algorithm = ensemble\<rparr>
   \<and> fst (detectThreats 0 no_metrics (voting_engine 128))
       = Inr \<lparr>isAnomaly = True, threatScore = Fin (4 / 5), confidence = Fin (1 / 2),
               riskLevel = high, contributing = [], algorithm = ensemble\<rparr>
   \<and> modelTrained example_engine \<and> forests_trained example_engine"
  using C1_ensemble_fusion [of "voting_engine 1" 0 no_metrics] voting_engine_trained [of 1]
    voting_engine_critical voting_engine_high reachable_forests_trained [OF reachable_example_engine]
  by blast

text \<open>
  Claim C6 (whenever the models are not trained, \<open>detectThreats\<close> returns the neutral
  prediction, not anomalous, score 0, confidence 0, risk level low, no contributing
  feature, and does not throw, for every input). The engine is left as it was. The
  witness is the object before its first training.
\<close>

theorem C6_untrained_neutral_prediction:
  assumes "\<not> modelTrained s"
  shows "detectThreats now networkData s
         = (Inr \<lparr>isAnomaly = False, threatScore = Fin 0, confidence = Fin 0, riskLevel = low,
                 contributing = [], algorithm = ensemble\<rparr>, s)"
  using assms by (simp add: detectThreats_def neutral_prediction_def)

theorem C6_untrained_neutral_prediction_witness:
  "\<not> modelTrained MLThreatDetection_fields
   \<and> detectThreats 0 no_metrics MLThreatDetection_fields
       = (Inr \<lparr>isAnomaly = False, threatScore = Fin 0, confidence = Fin 0, riskLevel = low,
               contributing = [], algorithm = ensemble\<rparr>, MLThreatDetection_fields)"
  using C6_untrained_neutral_prediction [of MLThreatDetection_fields 0 no_metrics]
  by (simp add: MLThreatDetection_fields_def)


lemma trainModels_trainingData: "trainingData (trainModels dr s) = trainingData s"
  by (simp add: trainModels_def Let_def split: option.splits)

text \<open>
  Claim C7 (after every \<open>retrainWithFeedback\<close> the training set holds at most 1000
  samples; whenever an append makes it exceed 1000 it is trimmed to exactly the most
  recent 800, the oldest evicted first; otherwise the set is only appended to, never
  changed in place). The set after the call is the old set with the new sample at its
  end, or the last 800 of that; \<open>detectThreats\<close> and \<open>trainModels\<close> leave it as it is.
\<close>

theorem C7_training_set_capped:
  "length (trainingData (retrainWithFeedback dr f isThreat s)) \<le> 1000
   \<and> trainingData (retrainWithFeedback dr f isThreat s)
       = (if 1000 < length (trainingData s) + 1
          then drop (length (trainingData s) + 1 - 800)
                 (trainingData s
                  @ [\<lparr>features = featureVector f, label = (if isThreat then 1 else 0)\<rparr>])
          else trainingData s
               @ [\<lparr>features = featureVector f, label = (if isThreat then 1 else 0)\<rparr>])
   \<and> (if 1000 < length (trainingData s) + 1
       then length (trainingData (retrainWithFeedback dr f isThreat s)) = 800
       else length (trainingData (retrainWithFeedback dr f isThreat s))
            = length (trainingData s) + 1)
   \<and> trainingData (snd (detectThreats now networkData s)) = trainingData s
   \<and> trainingData (trainModels dr s) = trainingData s"
  by (simp add: retrainWithFeedback_trainingData slice_last_def detectThreats_frame
      trainModels_trainingData)

text \<open>A sequence of feedback calls, each with its draws.\<close>

fun feedbacks :: "(Draws \<times> NetworkFeature \<times> bool) list \<Rightarrow> MLThreatDetection \<Rightarrow> MLThreatDetection"
  where
  "feedbacks [] s = s"
| "feedbacks ((dr, f, isThreat) # rest) s = feedbacks rest (retrainWithFeedback dr f isThreat s)"

lemma feedbacks_snoc:
  "feedbacks (calls @ [(dr, f, isThreat)]) s = retrainWithFeedback dr f isThreat (feedbacks calls s)"
  by (induction calls arbitrary: s) auto

text \<open>The engine after the append and the trim of \<open>retrainWithFeedback\<close>.\<close>

definition appended :: "NetworkFeature \<Rightarrow> bool \<Rightarrow> MLThreatDetection \<Rightarrow> MLThreatDetection" where
  "appended f isThreat s =
     s\<lparr>trainingData :=
         (if 1000 < length (trainingData s) + 1
          then slice_last 800
                 (trainingData s
                  @ [\<lparr>features = featureVector f, label = (if isThreat then 1 else 0)\<rparr>])
          else trainingData s
               @ [\<lparr>features = featureVector f, label = (if isThreat then 1 else 0)\<rparr>])\<rparr>"

lemma retrainWithFeedback_appended:
  "retrainWithFeedback dr f isThreat s
   = (if length (trainingData (appended f isThreat s)) mod 50 = 0
      then trainModels dr (appended f isThreat s) else appended f isThreat s)"
  by (simp add: retrainWithFeedback_def appended_def Let_def)

lemma appended_not_Nil: "trainingData (appended f isThreat s) \<noteq> []"
  by (simp add: appended_def slice_last_def)

lemma retrainWithFeedback_cases:
  assumes "\<not> isTraining s"
  shows "retrainWithFeedback dr f isThreat s
   = (if length (trainingData (appended f isThreat s)) mod 50 = 0
      then (appended f isThreat s)
             \<lparr>randomForest :=
                 snd (RandomForest_train (bootstrap_draws dr) (randomForest s)
                        (trainingData (appended f isThreat s))),
               isolationForest :=
                 IsolationForest_train (sample_keys dr) (tree_draws dr) (isolationForest s)
                   (map features (trainingData (appended f isThreat s))),
               isTraining := False, modelTrained := True,
               console := console s @ [Log_models_trained]\<rparr>
      else appended f isThreat s)"
proof -
  have "\<not> isTraining (appended f isThreat s)"
    using assms by (simp add: appended_def)
  from trainModels_trains [OF this appended_not_Nil, of dr] show ?thesis
    by (simp add: retrainWithFeedback_appended) (simp add: appended_def)
qed

lemma feedbacks_no_retrain:
  "\<not> isTraining s \<Longrightarrow> length (trainingData s) mod 50 + length calls < 50 \<Longrightarrow>
   length (trainingData s) + length calls \<le> 1000 \<Longrightarrow>
   console (feedbacks calls s) = console s
   \<and> randomForest (feedbacks calls s) = randomForest s
   \<and> isolationForest (feedbacks calls s) = isolationForest s
   \<and> length (trainingData (feedbacks calls s)) = length (trainingData s) + length calls
   \<and> \<not> isTraining (feedbacks calls s)"
proof (induction calls arbitrary: s)
  case Nil
  then show ?case by simp
next
  case (Cons call calls)
  obtain dr f isThreat where call: "call = (dr, f, isThreat)"
    by (cases call) auto
  let ?s = "appended f isThreat s"
  from Cons.prems have len: "length (trainingData ?s) = length (trainingData s) + 1"
    by (simp add: appended_def)
  from Cons.prems have "(length (trainingData s) + 1) mod 50 \<noteq> 0"
    by (simp add: mod_Suc)
  with len have step: "retrainWithFeedback dr f isThreat s = ?s"
    by (simp add: retrainWithFeedback_appended)
  have s': "\<not> isTraining ?s" "console ?s = console s" "randomForest ?s = randomForest s"
    "isolationForest ?s = isolationForest s"
    using Cons.prems by (simp_all add: appended_def)
  from Cons.prems have "(length (trainingData s) + 1) mod 50 = length (trainingData s) mod 50 + 1"
    by (simp add: mod_Suc)
  with Cons.prems len have "length (trainingData ?s) mod 50 + length calls < 50"
    "length (trainingData ?s) + length calls \<le> 1000"
    by simp_all
  from Cons.IH [OF s'(1) this] s' len call step show ?case
    by simp
qed


lemma fifty_feedbacks_after_construction:
  assumes "length calls = 50"
  shows "console (feedbacks calls (new_MLThreatDetection normal_draws threat_draws dr0))
         = [Log_models_trained, Log_models_trained]
       \<and> length (trainingData (feedbacks calls (new_MLThreatDetection normal_draws threat_draws dr0)))
         = 300"
proof -
  let ?s0 = "new_MLThreatDetection normal_draws threat_draws dr0"
  from assms obtain first49 call where calls: "calls = first49 @ [call]" "length first49 = 49"
    by (cases calls rule: rev_cases) auto
  obtain dr f isThreat where call: "call = (dr, f, isThreat)"
    by (cases call) auto
  have s0: "\<not> isTraining ?s0" "length (trainingData ?s0) = 250" "console ?s0 = [Log_models_trained]"
    using new_MLThreatDetection_inv [of normal_draws threat_draws dr0]
    by (simp_all add: engine_inv_def new_MLThreatDetection_trainingData
        new_MLThreatDetection_console)
  let ?s = "feedbacks first49 ?s0"
  from feedbacks_no_retrain [OF s0(1), of first49] s0(2,3) calls(2)
  have s: "console ?s = [Log_models_trained]" "length (trainingData ?s) = 299" "\<not> isTraining ?s"
    by simp_all
  from s(2) have app: "length (trainingData (appended f isThreat ?s)) = 300"
    by (simp add: appended_def)
  from retrainWithFeedback_cases [OF s(3), of dr f isThreat] app s(1)
  have "console (retrainWithFeedback dr f isThreat ?s) = [Log_models_trained, Log_models_trained]"
    "length (trainingData (retrainWithFeedback dr f isThreat ?s)) = 300"
    by simp_all
  with calls(1) call show ?thesis
    by (simp add: feedbacks_snoc)
qed

text \<open>
  Claim C8 (\<open>retrainWithFeedback\<close> re-trains both forests exactly when the size of the
  training set after the append and any trim is a multiple of 50; starting from the 250
  samples of the constructor, a sequence of 50 feedback calls triggers exactly one
  retraining). A training writes one line to the console: the constructor's training
  writes the first, and the 50 calls add exactly one.
\<close>

theorem C8_retrain_on_multiples_of_50:
  "(\<not> isTraining s \<longrightarrow>
      retrainWithFeedback dr f isThreat s
      = (if length (trainingData (appended f isThreat s)) mod 50 = 0
         then (appended f isThreat s)
                \<lparr>randomForest :=
                    snd (RandomForest_train (bootstrap_draws dr) (randomForest s)
                           (trainingData (appended f isThreat s))),
                  isolationForest :=
                    IsolationForest_train (sample_keys dr) (tree_draws dr) (isolationForest s)
                      (map features (trainingData (appended f isThreat s))),
                  isTraining := False, modelTrained := True,
                  console := console s @ [Log_models_trained]\<rparr>
         else appended f isThreat s))
   \<and> (length calls = 50 \<longrightarrow>
        length (trainingData (new_MLThreatDetection normal_draws threat_draws dr0)) = 250
      \<and> console (new_MLThreatDetection normal_draws threat_draws dr0) = [Log_models_trained]
      \<and> console (feedbacks calls (new_MLThreatDetection normal_draws threat_draws dr0))
          = [Log_models_trained, Log_models_trained])"
  using retrainWithFeedback_cases [of s dr f isThreat]
    fifty_feedbacks_after_construction [of calls normal_draws threat_draws dr0]
    new_MLThreatDetection_trainingData [of normal_draws threat_draws dr0]
    new_MLThreatDetection_console [of normal_draws threat_draws dr0]
  by blast

definition example_feature :: NetworkFeature where
  "example_feature = extractFeatures 0 no_metrics example_engine"

lemma example_engine_not_training: "\<not> isTraining example_engine"
  using reachable_inv [OF reachable_example_engine] by (simp add: engine_inv_def)

lemma example_engine_size: "length (trainingData example_engine) = 250"
  by (simp add: example_engine_def new_MLThreatDetection_trainingData)

lemma appended_example_size:
  "length (trainingData (appended example_feature True example_engine)) = 251"
  by (simp add: appended_def example_engine_size)

theorem C8_retrain_on_multiples_of_50_witness:
  "\<not> isTraining example_engine
   \<and> retrainWithFeedback training_draws_zero example_feature True example_engine
       = appended example_feature True example_engine
   \<and> length (replicate 50 (training_draws_zero, example_feature, True)) = 50
   \<and> console (feedbacks (replicate 50 (training_draws_zero, example_feature, True)) example_engine)
       = [Log_models_trained, Log_models_trained]"
  using C8_retrain_on_multiples_of_50
    [of example_engine training_draws_zero example_feature True
        "replicate 50 (training_draws_zero, example_feature, True)"
        pattern_draws_zero pattern_draws_zero training_draws_zero]
    example_engine_not_training appended_example_size
  by (simp add: example_engine_def)

text \<open>
  Claim C9 (\<open>getModelStats\<close> changes nothing and returns the number of training samples,
  the trained flag, the length of the feature history, and as \<open>lastTrainingTime\<close> the time
  of the most recent training, \<open>null\<close> when never trained). The three counts are as
  claimed, but the engine keeps no time of training: \<open>lastTrainingTime\<close> is the time of
  the call itself, so two readings of one engine, with no training between them, differ.
\<close>

theorem C9_last_training_time_is_time_of_call:
  assumes "reachable s"
  shows "getModelStats now s
         = \<lparr>trainingDataSize = length (trainingData s), stats_modelTrained = True,
            featureHistorySize = length (featureHistory s), lastTrainingTime = Some now\<rparr>"
  using reachable_inv [OF assms] by (simp add: getModelStats_def engine_inv_def)

theorem C9_last_training_time_is_time_of_call_witness:
  "reachable example_engine
   \<and> lastTrainingTime (getModelStats 1000 example_engine) = Some 1000
   \<and> lastTrainingTime (getModelStats 5000 example_engine) = Some 5000"
  using C9_last_training_time_is_time_of_call [OF reachable_example_engine, of 1000]
    C9_last_training_time_is_time_of_call [OF reachable_example_engine, of 5000]
    reachable_example_engine
  by simp

section \<open>Security monitor\<close>

text \<open>
  Of the monitor, the request rules (\<open>analyzeRequest\<close>), the creation of an event
  (\<open>createSecurityEvent\<close>) and the navigation rule are modelled; the memory and click
  rules run on timers and are left out.
\<close>

datatype EventType = suspicious_request | failed_auth | unusual_activity | resource_abuse

text \<open>
  The \<open>details\<close> objects of the three rules of \<open>analyzeRequest\<close> and of the navigation
  rule.
\<close>

datatype Details =
  Details_requestCount nat string
| Details_failedCount nat int string
| Details_responseTime real string
| Details_pageChanges nat

text \<open>The argument of \<open>createSecurityEvent\<close>, and the event it builds from it.\<close>

record EventData =
  event_type :: EventType
  severity :: Level
  source :: string
  description :: string
  details :: Details

record SecurityEvent = EventData +
  event_id :: string
  event_timestamp :: int
  mlPrediction :: ThreatPrediction

record NetworkMetrics =
  nm_requestCount :: nat
  nm_failedRequests :: nat
  totalResponseTime :: real
  totalDataTransferred :: real
  nm_uniqueDomains :: "string list"
  nm_httpErrors :: nat
  nm_suspiciousPatterns :: nat
  clickCount :: nat
  navigationCount :: nat
  startTime :: int

text \<open>
  The monitor object. Its listeners are callbacks of the views and are left out; the
  events that \<open>createSecurityEvent\<close> builds, each of which every listener receives, are a
  result of the model instead.
\<close>

record SecurityMonitor =
  events :: "SecurityEvent list"
  failedAttempts :: "string \<rightharpoonup> nat"
  requestCounts :: "string \<rightharpoonup> nat"
  networkMetrics :: NetworkMetrics

definition new_SecurityMonitor :: "int \<Rightarrow> SecurityMonitor" where
  "new_SecurityMonitor now =
     \<lparr>events = [], failedAttempts = Map.empty, requestCounts = Map.empty,
      networkMetrics =
        \<lparr>nm_requestCount = 0, nm_failedRequests = 0, totalResponseTime = 0,
         totalDataTransferred = 0, nm_uniqueDomains = [], nm_httpErrors = 0,
         nm_suspiciousPatterns = 0, clickCount = 0, navigationCount = 0, startTime = now\<rparr>\<rparr>"

text \<open>\<open>map.get(key) || 0\<close>.\<close>

definition get_or_zero :: "(string \<rightharpoonup> nat) \<Rightarrow> string \<Rightarrow> nat" where
  "get_or_zero m k = (case m k of None \<Rightarrow> 0 | Some c \<Rightarrow> c)"

text \<open>
  What the rest of \<open>createSecurityEvent\<close> needs once the engine has answered: the
  prediction that \<open>await mlThreatDetection.detectThreats(networkData)\<close> yields (or the
  exception that ends the call there), the identifier drawn and the time read. The
  engine is a separate object; its own state, which this call changes through
  \<open>detectThreats\<close> and \<open>retrainWithFeedback\<close>, is the subject of the previous section.
\<close>

record Completion =
  answer :: "error + ThreatPrediction"
  drawn_id :: string
  time_read :: int

definition createSecurityEvent ::
  "Completion \<Rightarrow> EventData \<Rightarrow> SecurityMonitor \<Rightarrow> SecurityMonitor \<times> SecurityEvent list" where
  "createSecurityEvent c eventData mon =
     (case answer c of
        Inl e \<Rightarrow> (mon, [])
      | Inr p \<Rightarrow>
          (let event = \<lparr>event_type = event_type eventData, severity = severity eventData,
                         source = source eventData, description = description eventData,
                         details = details eventData, event_id = drawn_id c,
                         event_timestamp = time_read c, mlPrediction = p\<rparr>;
               pushed = events mon @ [event]
           in (mon\<lparr>events := (if 100 < length pushed then tl pushed else pushed)\<rparr>, [event])))"

text \<open>
  \<open>analyzeRequest\<close> up to its return: the counters and the tables after it, and the
  arguments of its calls of \<open>createSecurityEvent\<close>, in order. \<open>domain\<close> is the host name
  that \<open>new URL(url, window.location.origin).hostname\<close> extracts from \<open>url\<close>.
\<close>

definition analyzeRequest_calls ::
  "string \<Rightarrow> string \<Rightarrow> int \<Rightarrow> real \<Rightarrow> SecurityMonitor \<Rightarrow> SecurityMonitor \<times> EventData list" where
  "analyzeRequest_calls domain url status response_time mon =
     (let m0 = networkMetrics mon;
          m1 = m0\<lparr>nm_requestCount := nm_requestCount m0 + 1,
                  totalResponseTime := totalResponseTime m0 + response_time,
                  nm_uniqueDomains := List.insert domain (nm_uniqueDomains m0)\<rparr>;
          m2 = (if 400 \<le> status
                then m1\<lparr>nm_failedRequests := nm_failedRequests m1 + 1,
                        nm_httpErrors := nm_httpErrors m1 + 1\<rparr>
                else m1);
          currentCount = get_or_zero (requestCounts mon) domain;
          counts = (requestCounts mon)(domain \<mapsto> currentCount + 1);
          m3 = (if 100 < currentCount
                then m2\<lparr>nm_suspiciousPatterns := nm_suspiciousPatterns m2 + 1\<rparr> else m2);
          call1 = (if 100 < currentCount
                   then [\<lparr>event_type = resource_abuse, severity = medium, source = domain,
                           description = ''High request volume detected to '' @ domain,
                           details = Details_requestCount currentCount url\<rparr>]
                   else []);
          failedCount = get_or_zero (failedAttempts mon) domain;
          attempts = (if 400 \<le> status \<and> status < 500
                      then (failedAttempts mon)(domain \<mapsto> failedCount + 1)
                      else failedAttempts mon);
          m4 = (if 400 \<le> status \<and> status < 500 \<and> 5 < failedCount
                then m3\<lparr>nm_suspiciousPatterns := nm_suspiciousPatterns m3 + 1\<rparr> else m3);
          call2 = (if 400 \<le> status \<and> status < 500 \<and> 5 < failedCount
                   then [\<lparr>event_type = failed_auth, severity = high, source = domain,
                           description = ''Multiple failed requests detected to '' @ domain,
                           details = Details_failedCount failedCount status url\<rparr>]
                   else []);
          m5 = (if 10000 < response_time
                then m4\<lparr>nm_suspiciousPatterns := nm_suspiciousPatterns m4 + 1\<rparr> else m4);
          call3 = (if 10000 < response_time
                   then [\<lparr>event_type = unusual_activity, severity = low, source = domain,
                           description = ''Slow response time detected from '' @ domain,
                           details = Details_responseTime response_time url\<rparr>]
                   else [])
      in (mon\<lparr>failedAttempts := attempts, requestCounts := counts, networkMetrics := m5\<rparr>,
          call1 @ call2 @ call3))"

text \<open>
  The calls of \<open>createSecurityEvent\<close> are not awaited: each runs up to its \<open>await\<close> and
  its rest runs once \<open>analyzeRequest\<close> has returned, the rests in the order of the calls.
\<close>

fun complete ::
  "(Completion \<times> EventData) list \<Rightarrow> SecurityMonitor \<Rightarrow> SecurityMonitor \<times> SecurityEvent list" where
  "complete [] mon = (mon, [])"
| "complete ((c, eventData) # rest) mon =
     (let r1 = createSecurityEvent c eventData mon;
          r2 = complete rest (fst r1)
      in (fst r2, snd r1 @ snd r2))"

definition analyzeRequest ::
  "(nat \<Rightarrow> Completion) \<Rightarrow> string \<Rightarrow> string \<Rightarrow> int \<Rightarrow> real \<Rightarrow> SecurityMonitor
   \<Rightarrow> SecurityMonitor \<times> SecurityEvent list" where
  "analyzeRequest completions domain url status response_time mon =
     (let r = analyzeRequest_calls domain url status response_time mon
      in complete (zip (map completions [0 ..< length (snd r)]) (snd r)) (fst r))"

text \<open>
  A sequence of requests to one domain: each request with its URL, its status, its
  response time and the completions of the events it triggers.
\<close>

record Observed =
  obs_url :: string
  obs_status :: int
  obs_responseTime :: real
  obs_completions :: "nat \<Rightarrow> Completion"

fun observe ::
  "Observed list \<Rightarrow> string \<Rightarrow> SecurityMonitor \<Rightarrow> SecurityMonitor \<times> SecurityEvent list" where
  "observe [] domain mon = (mon, [])"
| "observe (r # rest) domain mon =
     (let r1 = analyzeRequest (obs_completions r) domain (obs_url r) (obs_status r)
                 (obs_responseTime r) mon;
          r2 = observe rest domain (fst r1)
      in (fst r2, snd r1 @ snd r2))"


text \<open>
  The listener that \<open>monitorUserBehavior\<close> registers for \<open>beforeunload\<close>, up to its return:
  \<open>pageChanges\<close> is the counter it closes over. This rule counts the current page change
  before it tests the count.
\<close>

definition beforeunload_calls ::
  "nat \<times> SecurityMonitor \<Rightarrow> (nat \<times> SecurityMonitor) \<times> EventData list" where
  "beforeunload_calls st =
     (let pageChanges = fst st + 1;
          m0 = networkMetrics (snd st);
          m1 = m0\<lparr>navigationCount := navigationCount m0 + 1\<rparr>;
          m2 = (if 20 < pageChanges
                then m1\<lparr>nm_suspiciousPatterns := nm_suspiciousPatterns m1 + 1\<rparr> else m1);
          call = (if 20 < pageChanges
                  then [\<lparr>event_type = unusual_activity, severity = low, source = ''localhost'',
                          description = ''Excessive page navigation detected'',
                          details = Details_pageChanges pageChanges\<rparr>]
                  else [])
      in ((pageChanges, (snd st)\<lparr>networkMetrics := m2\<rparr>), call))"

text \<open>An event of the request-count rule: type \<open>resource_abuse\<close>, severity medium.\<close>

definition is_volume_event :: "'a EventData_scheme \<Rightarrow> bool" where
  "is_volume_event e = (event_type e = resource_abuse \<and> severity e = medium)"

subsection \<open>Facts about the monitor\<close>

lemma createSecurityEvent_counts:
  "requestCounts (fst (createSecurityEvent c eventData mon)) = requestCounts mon"
  by (simp add: createSecurityEvent_def Let_def split: sum.splits)

lemma createSecurityEvent_volume:
  "\<not> is_volume_event eventData \<Longrightarrow>
   filter is_volume_event (snd (createSecurityEvent c eventData mon)) = []"
  by (simp add: createSecurityEvent_def Let_def is_volume_event_def split: sum.splits)

lemma complete_counts: "requestCounts (fst (complete zs mon)) = requestCounts mon"
  by (induction zs arbitrary: mon) (auto simp: Let_def createSecurityEvent_counts)

lemma complete_volume:
  "filter is_volume_event (map snd zs) = [] \<Longrightarrow>
   filter is_volume_event (snd (complete zs mon)) = []"
proof (induction zs arbitrary: mon)
  case Nil
  then show ?case by simp
next
  case (Cons z zs)
  obtain c eventData where z: "z = (c, eventData)"
    by (cases z) auto
  from Cons.prems z have "\<not> is_volume_event eventData" "filter is_volume_event (map snd zs) = []"
    by (auto split: if_splits)
  with Cons.IH z show ?case
    by (simp add: Let_def createSecurityEvent_volume)
qed

lemma analyzeRequest_calls_counts:
  "requestCounts (fst (analyzeRequest_calls domain url status response_time mon))
   = (requestCounts mon)(domain \<mapsto> get_or_zero (requestCounts mon) domain + 1)"
  by (simp add: analyzeRequest_calls_def Let_def)

lemma analyzeRequest_calls_volume:
  "filter is_volume_event (snd (analyzeRequest_calls domain url status response_time mon))
   = (if 100 < get_or_zero (requestCounts mon) domain
      then [\<lparr>event_type = resource_abuse, severity = medium, source = domain,
              description = ''High request volume detected to '' @ domain,
              details = Details_requestCount (get_or_zero (requestCounts mon) domain) url\<rparr>]
      else [])"
  by (simp add: analyzeRequest_calls_def Let_def is_volume_event_def)

lemma analyzeRequest_counts:
  "get_or_zero (requestCounts (fst (analyzeRequest completions domain url status response_time mon)))
     domain
   = get_or_zero (requestCounts mon) domain + 1"
  by (simp add: analyzeRequest_def Let_def complete_counts analyzeRequest_calls_counts
      get_or_zero_def)

lemma analyzeRequest_volume:
  assumes "get_or_zero (requestCounts mon) domain \<le> 100"
  shows "filter is_volume_event
           (snd (analyzeRequest completions domain url status response_time mon)) = []"
proof -
  let ?r = "analyzeRequest_calls domain url status response_time mon"
  from assms have "filter is_volume_event (snd ?r) = []"
    by (simp add: analyzeRequest_calls_volume)
  then have "filter is_volume_event
               (map snd (zip (map completions [0 ..< length (snd ?r)]) (snd ?r))) = []"
    by simp
  from complete_volume [OF this] show ?thesis
    by (simp add: analyzeRequest_def Let_def)
qed

lemma observe_below_threshold:
  "get_or_zero (requestCounts mon) domain + length reqs \<le> 101 \<Longrightarrow>
   filter is_volume_event (snd (observe reqs domain mon)) = []
   \<and> get_or_zero (requestCounts (fst (observe reqs domain mon))) domain
       = get_or_zero (requestCounts mon) domain + length reqs"
proof (induction reqs arbitrary: mon)
  case Nil
  then show ?case by simp
next
  case (Cons r reqs)
  let ?m = "fst (analyzeRequest (obs_completions r) domain (obs_url r) (obs_status r)
                   (obs_responseTime r) mon)"
  have cnt: "get_or_zero (requestCounts ?m) domain = get_or_zero (requestCounts mon) domain + 1"
    by (rule analyzeRequest_counts)
  from Cons.prems have "get_or_zero (requestCounts mon) domain \<le> 100"
    by simp
  from analyzeRequest_volume [OF this]
  have here: "filter is_volume_event
                (snd (analyzeRequest (obs_completions r) domain (obs_url r) (obs_status r)
                        (obs_responseTime r) mon)) = []" .
  from Cons.prems cnt have "get_or_zero (requestCounts ?m) domain + length reqs \<le> 101"
    by simp
  from Cons.IH [OF this] cnt here show ?case
    by (simp add: Let_def)
qed

lemma navigation_rule_counts_current_change:
  "snd (beforeunload_calls (20, mon))
   = [\<lparr>event_type = unusual_activity, severity = low, source = ''localhost'',
        description = ''Excessive page navigation detected'',
        details = Details_pageChanges 21\<rparr>]
   \<and> snd (beforeunload_calls (19, mon)) = []"
  by (simp add: beforeunload_calls_def Let_def)

lemma request_rule_counts_earlier_requests:
  "requestCounts mon domain = Some 100 \<Longrightarrow>
   filter is_volume_event (snd (analyzeRequest_calls domain url status response_time mon)) = []"
  by (simp add: analyzeRequest_calls_volume get_or_zero_def)

text \<open>
  Claim C2 (for any single domain, when the 101st request to it is observed, exactly one
  event of type \<open>resource_abuse\<close> and severity medium is created for the request-count
  rule: it fires at the 101st request and not earlier, and 101 requests produce exactly
  one such event). The rule tests \<open>currentCount\<close>, the number of requests to the domain
  before the one observed: at the 101st request that number is 100, which does not exceed
  100. So the first 101 requests to a domain create no such event, whatever their status
  and response time, and the rule calls \<open>createSecurityEvent\<close> for the first time at the
  102nd request, reporting a request count of 101. (The tables are never reset, so there
  is no window, and every later request fires again.)
\<close>

theorem C2_volume_rule_silent_for_101_requests:
  assumes "requestCounts mon domain = None" and "length reqs = 101"
  shows "filter is_volume_event (snd (observe reqs domain mon)) = []
       \<and> get_or_zero (requestCounts (fst (observe reqs domain mon))) domain = 101
       \<and> filter is_volume_event
           (snd (analyzeRequest_calls domain url status response_time
                   (fst (observe reqs domain mon))))
         = [\<lparr>event_type = resource_abuse, severity = medium, source = domain,
              description = ''High request volume detected to '' @ domain,
              details = Details_requestCount 101 url\<rparr>]"
proof -
  from assms have "get_or_zero (requestCounts mon) domain + length reqs \<le> 101"
    "get_or_zero (requestCounts mon) domain = 0"
    by (simp_all add: get_or_zero_def)
  with observe_below_threshold [of mon domain reqs] assms(2)
  have "filter is_volume_event (snd (observe reqs domain mon)) = []"
    "get_or_zero (requestCounts (fst (observe reqs domain mon))) domain = 101"
    by simp_all
  then show ?thesis
    by (simp add: analyzeRequest_calls_volume)
qed

text \<open>A request that succeeds quickly, and completions whose prediction is the neutral one.\<close>

definition example_completion :: "nat \<Rightarrow> Completion" where
  "example_completion k = \<lparr>answer = Inr neutral_prediction, drawn_id = ''abc123xyz'', time_read = 0\<rparr>"

definition example_request :: Observed where
  "example_request =
     \<lparr>obs_url = ''https://api.example.com/items'', obs_status = 200, obs_responseTime = 50,
      obs_completions = example_completion\<rparr>"

theorem C2_volume_rule_silent_for_101_requests_witness:
  "requestCounts (new_SecurityMonitor 0) ''api.example.com'' = None
   \<and> length (replicate 101 example_request) = 101
   \<and> filter is_volume_event
       (snd (observe (replicate 101 example_request) ''api.example.com'' (new_SecurityMonitor 0)))
      = []
   \<and> filter is_volume_event
       (snd (analyzeRequest_calls ''api.example.com'' ''https://api.example.com/items'' 200 50
               (fst (observe (replicate 101 example_request) ''api.example.com''
                       (new_SecurityMonitor 0)))))
      = [\<lparr>event_type = resource_abuse, severity = medium, source = ''api.example.com'',
           description = ''High request volume detected to '' @ ''api.example.com'',
           details = Details_requestCount 101 ''https://api.example.com/items''\<rparr>]"
  using C2_volume_rule_silent_for_101_requests
    [of "new_SecurityMonitor 0" "''api.example.com''" "replicate 101 example_request"
        "''https://api.example.com/items''" 200 50]
  by (simp add: new_SecurityMonitor_def)

end
